theory Spec2Isabelle
  imports Complex_Main
begin

section \<open>Numbers\<close>

text \<open>
  The program computes with JavaScript numbers. Every quantity of the simulation is
  built from finite values by addition, subtraction, multiplication, \<open>Math.max\<close>,
  \<open>Math.min\<close>, \<open>Math.floor\<close>, \<open>Math.sin\<close> and \<open>Math.cos\<close>, and is modelled as a
  \<^typ>\<open>real\<close> (rounding and overflow of doubles are not modelled). Three places can
  produce a value that is not a finite number: the division in the boss's targeted
  burst, \<open>parseInt\<close> on a persisted string, and everything computed from such a value
  afterwards (a bullet's position and velocity, the high score, the currency). Those
  fields have the type \<open>jsnum\<close>, with JavaScript's rules for the values that are not finite.
\<close>

datatype jsnum = Fin real | PosInf | NegInf | NaN

fun js_add :: "jsnum \<Rightarrow> jsnum \<Rightarrow> jsnum" where
  "js_add (Fin a) (Fin b) = Fin (a + b)"
| "js_add NaN _ = NaN"
| "js_add _ NaN = NaN"
| "js_add PosInf NegInf = NaN"
| "js_add NegInf PosInf = NaN"
| "js_add PosInf _ = PosInf"
| "js_add _ PosInf = PosInf"
| "js_add NegInf _ = NegInf"
| "js_add _ NegInf = NegInf"

fun js_neg :: "jsnum \<Rightarrow> jsnum" where
  "js_neg (Fin a) = Fin (- a)"
| "js_neg PosInf = NegInf"
| "js_neg NegInf = PosInf"
| "js_neg NaN = NaN"

definition js_sub :: "jsnum \<Rightarrow> jsnum \<Rightarrow> jsnum" where
  "js_sub a b = js_add a (js_neg b)"

text \<open>\<open>a * b\<close> with a finite right operand, as in \<open>(dx / dist) * 3.5\<close>.\<close>

fun js_mul :: "jsnum \<Rightarrow> real \<Rightarrow> jsnum" where
  "js_mul (Fin a) b = Fin (a * b)"
| "js_mul NaN b = NaN"
| "js_mul PosInf b = (if b = 0 then NaN else if 0 < b then PosInf else NegInf)"
| "js_mul NegInf b = (if b = 0 then NaN else if 0 < b then NegInf else PosInf)"

text \<open>\<open>a / b\<close> of two finite numbers: \<open>0 / 0\<close> is \<open>NaN\<close>, \<open>a / 0\<close> is an infinity.\<close>

definition js_div :: "real \<Rightarrow> real \<Rightarrow> jsnum" where
  "js_div a b =
     (if b \<noteq> 0 then Fin (a / b)
      else if a = 0 then NaN
      else if 0 < a then PosInf else NegInf)"

text \<open>Comparisons: every comparison with \<open>NaN\<close> is false.\<close>

fun js_lt :: "jsnum \<Rightarrow> jsnum \<Rightarrow> bool" where
  "js_lt (Fin a) (Fin b) = (a < b)"
| "js_lt NaN _ = False"
| "js_lt _ NaN = False"
| "js_lt NegInf NegInf = False"
| "js_lt NegInf _ = True"
| "js_lt PosInf _ = False"
| "js_lt (Fin a) PosInf = True"
| "js_lt (Fin a) NegInf = False"

definition js_gt :: "jsnum \<Rightarrow> jsnum \<Rightarrow> bool" where
  "js_gt a b = js_lt b a"

fun js_ge :: "jsnum \<Rightarrow> jsnum \<Rightarrow> bool" where
  "js_ge NaN _ = False"
| "js_ge _ NaN = False"
| "js_ge a b = (\<not> js_lt a b)"

text \<open>\<open>Math.max\<close> of two numbers: \<open>NaN\<close> as soon as one of them is.\<close>

fun js_max :: "jsnum \<Rightarrow> jsnum \<Rightarrow> jsnum" where
  "js_max NaN _ = NaN"
| "js_max _ NaN = NaN"
| "js_max a b = (if js_lt a b then b else a)"

definition is_finite :: "jsnum \<Rightarrow> bool" where
  "is_finite n = (case n of Fin _ \<Rightarrow> True | _ \<Rightarrow> False)"

text \<open>
  The remainder operator \<open>%\<close> on numbers truncates the quotient towards zero, so the
  result has the sign of the dividend.
\<close>

definition js_trunc :: "real \<Rightarrow> int" where
  "js_trunc r = (if 0 \<le> r then \<lfloor>r\<rfloor> else \<lceil>r\<rceil>)"

definition js_rem :: "real \<Rightarrow> real \<Rightarrow> real" where
  "js_rem a m = a - m * of_int (js_trunc (a / m))"

section \<open>Data model\<close>

text \<open>
  The interfaces of the type declarations, one record each. \<open>Entity\<close> extends \<open>Point\<close>
  and every spatial entity extends \<open>Entity\<close>; the coordinates are a type parameter,
  \<^typ>\<open>real\<close> for the player, the enemies and the power-ups and \<open>jsnum\<close> for the
  bullets. The field \<open>type\<close> of the source is \<open>ptype\<close>, \<open>etype\<close>, \<open>putype\<close> and
  \<open>btype\<close> here, and the fields an enemy shares by name with the player carry the
  prefix \<open>e\<close>.
\<close>

record 'n Point =
  x :: 'n
  y :: 'n

record 'n Entity = "'n Point" +
  width :: real
  height :: real
  speed :: real

text \<open>
  A plane id is a string at run time: the selected plane and the owned planes come
  from the persisted storage unchecked.
\<close>

type_synonym PlaneType = string

record PlaneData =
  pd_id :: PlaneType
  pd_name :: string
  pd_description :: string
  pd_price :: real
  pd_health :: real
  pd_speed :: real
  pd_fireRate :: real
  pd_color :: string

datatype BuffType = rapidFire | shield | spreadShot

record Buff =
  btype :: BuffType
  endTime :: real

record Player = "real Entity" +
  ptype :: PlaneType
  health :: real
  maxHealth :: real
  score :: real
  lastShot :: real
  fireRate :: real
  activeBuffs :: "Buff list"

datatype EnemyType = basic | fast | heavy | boss

record Enemy = "real Entity" +
  etype :: EnemyType
  ehealth :: real
  emaxHealth :: real
  elastShot :: real
  efireRate :: real

datatype Owner = owner_player | owner_enemy

record Bullet = "jsnum Entity" +
  owner :: Owner
  damage :: real
  vx :: "jsnum option"
  vy :: "jsnum option"

record PowerUp = "real Entity" +
  putype :: BuffType

datatype Status = menu | playing | gameover | paused | countdown | shop

record GameState =
  status :: Status
  gs_score :: real
  highScore :: jsnum
  totalCurrency :: jsnum
  ownedPlanes :: "PlaneType list"
  selectedPlane :: PlaneType
  countdownValue :: "int option"

definition CANVAS_WIDTH :: real where
  "CANVAS_WIDTH = 480"

definition CANVAS_HEIGHT :: real where
  "CANVAS_HEIGHT = 640"

definition PLANES :: "PlaneData list" where
  "PLANES =
    [\<lparr>pd_id = ''standard'', pd_name = ''P-38 Lightning'',
      pd_description = ''Balanced standard fighter.'', pd_price = 0, pd_health = 100,
      pd_speed = 2.5, pd_fireRate = 200, pd_color = ''#1d4ed8''\<rparr>,
     \<lparr>pd_id = ''light'', pd_name = ''Swift Interceptor'',
      pd_description = ''High speed, lower health.'', pd_price = 5000, pd_health = 70,
      pd_speed = 3.8, pd_fireRate = 150, pd_color = ''#10b981''\<rparr>,
     \<lparr>pd_id = ''heavy'', pd_name = ''Flying Fortress'',
      pd_description = ''Massive health, slower speed.'', pd_price = 15000, pd_health = 250,
      pd_speed = 1.8, pd_fireRate = 300, pd_color = ''#4b5563''\<rparr>,
     \<lparr>pd_id = ''tech'', pd_name = ''Laser Prototype'',
      pd_description = ''Advanced tech, high fire rate.'', pd_price = 30000, pd_health = 100,
      pd_speed = 2.8, pd_fireRate = 100, pd_color = ''#8b5cf6''\<rparr>,
     \<lparr>pd_id = ''blast'', pd_name = ''Bomber Special'',
      pd_description = ''Heavy damage, wide bullets.'', pd_price = 50000, pd_health = 150,
      pd_speed = 2.2, pd_fireRate = 400, pd_color = ''#f59e0b''\<rparr>]"

text \<open>
  The mutable state of the component \<open>App\<close>: the React state \<open>gameState\<close> and the refs
  that the simulation reads and writes. \<open>captured\<close> is the \<open>gameState\<close> that the running
  animation-frame callback sees: the effect that starts the frame loop depends on
  \<open>gameState.status\<close> only, so the closure \<open>update\<close> it calls is the one of the render
  in which the status last changed, and its \<open>gameState\<close> is that render's.

  The particles, the head-up display, the background offset, the sound cues and the
  writes to the persisted storage are outputs only: nothing of the simulation reads
  them, and the model leaves them out.
\<close>

record World =
  gameState :: GameState
  captured :: GameState
  player :: Player
  enemies :: "Enemy list"
  bullets :: "Bullet list"
  powerUps :: "PowerUp list"
  lastEnemySpawn :: real
  lastPowerUpSpawn :: real
  lastBossDefeatedTime :: real
  bossCount :: int
  gameStartTime :: real
  pauseStartTime :: real
  totalPausedTime :: real

text \<open>
  What one event takes from the environment: the readings of \<open>performance.now()\<close>, the
  timestamp of the animation frame, the keys held, and the draws of \<open>Math.random()\<close>
  in the order the spawners make them.
\<close>

record Frame =
  timestamp :: real
  now_count :: real
  now_acc :: real
  keys :: "string \<Rightarrow> bool"
  rnd_etype :: real
  rnd_ex :: real
  rnd_putype :: real
  rnd_pux :: real

section \<open>The run state machine and the clock\<close>

text \<open>
  \<open>setGameState\<close> with an updater. When the status changes, the effect that depends on
  it runs again and the frame loop continues with the closure of the new render.
\<close>

definition setGameState :: "(GameState \<Rightarrow> GameState) \<Rightarrow> World \<Rightarrow> World" where
  "setGameState upd w =
     (let gs = upd (gameState w)
      in w\<lparr>gameState := gs,
            captured := (if status gs \<noteq> status (gameState w) then gs else captured w)\<rparr>)"

fun find_plane :: "PlaneType \<Rightarrow> PlaneData list \<Rightarrow> PlaneData option" where
  "find_plane i [] = None"
| "find_plane i (p # ps) = (if pd_id p = i then Some p else find_plane i ps)"

text \<open>\<open>resetGame\<close>, called at \<open>performance.now() = now\<close>.\<close>

definition resetGame :: "real \<Rightarrow> World \<Rightarrow> World" where
  "resetGame now w =
     (let planeData = (case find_plane (selectedPlane (gameState w)) PLANES of
                         Some p \<Rightarrow> p | None \<Rightarrow> hd PLANES)
      in setGameState (\<lambda>prev. prev\<lparr>status := playing, gs_score := 0\<rparr>)
           (w\<lparr>player :=
                 \<lparr>x = CANVAS_WIDTH / 2 - 20, y = CANVAS_HEIGHT - 80, width = 40, height = 40,
                  speed = pd_speed planeData, ptype = pd_id planeData,
                  health = pd_health planeData, maxHealth = pd_health planeData, score = 0,
                  lastShot = 0, fireRate = pd_fireRate planeData, activeBuffs = []\<rparr>,
               enemies := [], bullets := [], powerUps := [],
               gameStartTime := now, lastBossDefeatedTime := 0, bossCount := 0,
               totalPausedTime := 0\<rparr>))"

text \<open>\<open>togglePause\<close>, called at \<open>performance.now() = now\<close>.\<close>

definition togglePause :: "real \<Rightarrow> World \<Rightarrow> World" where
  "togglePause now w =
     (if status (gameState w) = playing
      then setGameState (\<lambda>prev. prev\<lparr>status := paused\<rparr>) (w\<lparr>pauseStartTime := now\<rparr>)
      else if status (gameState w) = paused
      then setGameState (\<lambda>prev. prev\<lparr>status := countdown, countdownValue := Some 3\<rparr>) w
      else w)"

text \<open>The branch of \<open>update\<close> for the status \<open>countdown\<close>.\<close>

definition countdownSeconds :: "real \<Rightarrow> real \<Rightarrow> int" where
  "countdownSeconds now pauseStart = 3 - \<lfloor>(now - (pauseStart + 500)) / 1000\<rfloor>"

definition update_countdown :: "Frame \<Rightarrow> World \<Rightarrow> World" where
  "update_countdown f w =
     (let cs = countdownSeconds (now_count f) (pauseStartTime w)
      in if cs \<le> 0
         then setGameState (\<lambda>prev. prev\<lparr>status := playing\<rparr>)
                (w\<lparr>totalPausedTime := totalPausedTime w + (now_acc f - pauseStartTime w)\<rparr>)
         else if Some cs \<noteq> countdownValue (captured w)
         then setGameState (\<lambda>prev. prev\<lparr>countdownValue := Some cs\<rparr>) w
         else w)"

definition adjustedTimestamp :: "Frame \<Rightarrow> World \<Rightarrow> real" where
  "adjustedTimestamp f w = timestamp f - totalPausedTime w"

section \<open>The tick: movement, shooting and the spawners\<close>

text \<open>
  The player's movement, one definition for each statement of the source: the four
  tests of the keys held, then the clamp to the playfield.
\<close>

definition move_left :: "(string \<Rightarrow> bool) \<Rightarrow> Player \<Rightarrow> Player" where
  "move_left k p = (if k ''ArrowLeft'' \<or> k ''KeyA'' then p\<lparr>x := x p - speed p\<rparr> else p)"

definition move_right :: "(string \<Rightarrow> bool) \<Rightarrow> Player \<Rightarrow> Player" where
  "move_right k p = (if k ''ArrowRight'' \<or> k ''KeyD'' then p\<lparr>x := x p + speed p\<rparr> else p)"

definition move_up :: "(string \<Rightarrow> bool) \<Rightarrow> Player \<Rightarrow> Player" where
  "move_up k p = (if k ''ArrowUp'' \<or> k ''KeyW'' then p\<lparr>y := y p - speed p\<rparr> else p)"

definition move_down :: "(string \<Rightarrow> bool) \<Rightarrow> Player \<Rightarrow> Player" where
  "move_down k p = (if k ''ArrowDown'' \<or> k ''KeyS'' then p\<lparr>y := y p + speed p\<rparr> else p)"

definition clamp_bounds :: "Player \<Rightarrow> Player" where
  "clamp_bounds p =
     p\<lparr>x := max 0 (min (CANVAS_WIDTH - width p) (x p)),
       y := max 0 (min (CANVAS_HEIGHT - height p) (y p))\<rparr>"

definition move_player :: "(string \<Rightarrow> bool) \<Rightarrow> Player \<Rightarrow> Player" where
  "move_player k p = clamp_bounds (move_down k (move_up k (move_right k (move_left k p))))"

definition hasBuff :: "BuffType \<Rightarrow> Player \<Rightarrow> bool" where
  "hasBuff t p = list_ex (\<lambda>b. btype b = t) (activeBuffs p)"

definition player_bullet :: "real \<Rightarrow> real \<Rightarrow> real \<Rightarrow> real \<Rightarrow> real \<Rightarrow> Bullet" where
  "player_bullet bx by bulletWidth bulletHeight bulletDamage =
     \<lparr>x = Fin bx, y = Fin by, width = bulletWidth, height = bulletHeight, speed = - 4,
      owner = owner_player, damage = bulletDamage, vx = None, vy = None\<rparr>"

definition shoot :: "real \<Rightarrow> (string \<Rightarrow> bool) \<Rightarrow> World \<Rightarrow> World" where
  "shoot adj k w =
     (let p = player w;
          hasRapidFire = hasBuff rapidFire p;
          hasSpreadShot = hasBuff spreadShot p;
          currentFireRate = (if hasRapidFire then fireRate p / 2 else fireRate p)
      in if k ''Space'' \<and> adj - lastShot p > currentFireRate
         then
           (let bulletDamage = (if ptype p = ''blast'' then 25 else if ptype p = ''tech'' then 15 else 10);
                bulletWidth = (if ptype p = ''blast'' then 12 else 4);
                bulletHeight = (if ptype p = ''tech'' then 25 else 12);
                centre = player_bullet (x p + width p / 2 - bulletWidth / 2) (y p)
                           bulletWidth bulletHeight bulletDamage;
                new = (if hasSpreadShot
                       then [centre,
                             player_bullet (x p) (y p + 10) bulletWidth bulletHeight bulletDamage,
                             player_bullet (x p + width p - bulletWidth) (y p + 10)
                               bulletWidth bulletHeight bulletDamage]
                       else [centre])
            in w\<lparr>bullets := bullets w @ new, player := p\<lparr>lastShot := adj\<rparr>\<rparr>)
         else w)"

text \<open>
  \<open>types[Math.floor(Math.random() * types.length)]\<close>: the draw \<open>r\<close> is in \<open>[0, 1)\<close>, so the
  index is in range.
\<close>

definition random_pick :: "real \<Rightarrow> 'a list \<Rightarrow> 'a" where
  "random_pick r types = types ! nat \<lfloor>r * real (length types)\<rfloor>"

definition bossActive :: "World \<Rightarrow> bool" where
  "bossActive w = list_ex (\<lambda>e. etype e = boss) (enemies w)"

definition spawnEnemy :: "real \<Rightarrow> real \<Rightarrow> real \<Rightarrow> World \<Rightarrow> World" where
  "spawnEnemy ts r_type r_x w =
     (if bossActive w then w
      else
        (let gameTime = ts - gameStartTime w;
             difficultyFactor = min (gameTime / 120000) 1;
             currentSpawnInterval = 3000 - difficultyFactor * 2200
         in if ts - lastEnemySpawn w > currentSpawnInterval
            then
              (let ty = random_pick r_type [basic, fast, heavy];
                   enemy = \<lparr>x = r_x * (CANVAS_WIDTH - 40), y = - 50, width = 40, height = 40,
                            speed = (if ty = fast then 1.5 else if ty = heavy then 0.6 else 1.0),
                            etype = ty,
                            ehealth = (if ty = heavy then 50 else 20),
                            emaxHealth = (if ty = heavy then 50 else 20),
                            elastShot = 0,
                            efireRate = (if ty = heavy then 1500 else 2500)\<rparr>
               in w\<lparr>enemies := enemies w @ [enemy], lastEnemySpawn := ts\<rparr>)
            else w))"

definition spawnPowerUp :: "real \<Rightarrow> real \<Rightarrow> real \<Rightarrow> World \<Rightarrow> World" where
  "spawnPowerUp ts r_type r_x w =
     (if ts - lastPowerUpSpawn w > 8000
      then
        (let ty = random_pick r_type [rapidFire, shield, spreadShot]
         in w\<lparr>powerUps := powerUps w @
                  [\<lparr>x = r_x * (CANVAS_WIDTH - 30), y = - 30, width = 30, height = 30,
                    speed = 1.2, putype = ty\<rparr>],
               lastPowerUpSpawn := ts\<rparr>)
      else w)"

definition spawnBoss :: "real \<Rightarrow> World \<Rightarrow> World" where
  "spawnBoss ts w =
     (let gameTime = ts - gameStartTime w
      in if bossActive w then w
         else if gameTime - lastBossDefeatedTime w > 60000
         then
           (let bc = bossCount w + 1;
                h = 500 + real_of_int (bc - 1) * 300
            in w\<lparr>bossCount := bc,
                  enemies := enemies w @
                    [\<lparr>x = CANVAS_WIDTH / 2 - 40, y = - 100, width = 80, height = 80, speed = 0.4,
                      etype = boss, ehealth = h, emaxHealth = h, elastShot = 0,
                      efireRate = 800\<rparr>]\<rparr>)
         else w)"

section \<open>The tick: the loops over the collections\<close>

text \<open>
  \<open>Array.prototype.forEach\<close> reads the length once, before the first call, and visits
  the indices \<open>0\<close>, \<open>1\<close>, ... below it in turn; an index that is no longer in the array
  when its turn comes is passed over. The callbacks of the three loops remove the
  element they are visiting with \<open>splice(index, 1)\<close>, so the array can shrink while
  the loop runs. \<open>forEach len cb n k s\<close> makes the \<open>n\<close> visits that remain from the
  index \<open>k\<close> on; \<open>len\<close> reads the current length of the array in the state.
\<close>

primrec forEach :: "('s \<Rightarrow> nat) \<Rightarrow> (nat \<Rightarrow> 's \<Rightarrow> 's) \<Rightarrow> nat \<Rightarrow> nat \<Rightarrow> 's \<Rightarrow> 's" where
  "forEach len cb 0 k s = s"
| "forEach len cb (Suc n) k s = forEach len cb n (Suc k) (if k < len s then cb k s else s)"

text \<open>\<open>xs.splice(i, 1)\<close>; nothing is removed when \<open>i\<close> is not an index of \<open>xs\<close>.\<close>

definition splice1 :: "nat \<Rightarrow> 'a list \<Rightarrow> 'a list" where
  "splice1 i xs = take i xs @ drop (Suc i) xs"

text \<open>The bounding-box test, the first argument being the player.\<close>

definition overlaps :: "(real, 'a) Entity_scheme \<Rightarrow> (real, 'b) Entity_scheme \<Rightarrow> bool" where
  "overlaps a b =
     (x a < x b + width b \<and> x a + width a > x b \<and> y a < y b + height b \<and> y a + height a > y b)"

subsection \<open>Power-ups\<close>

text \<open>
  The buff of a power-up: \<open>find\<close> returns the first active buff of the type, whose
  expiry is then overwritten in place; without one, a new buff is pushed.
\<close>

fun set_first_endTime :: "BuffType \<Rightarrow> real \<Rightarrow> Buff list \<Rightarrow> Buff list" where
  "set_first_endTime t e [] = []"
| "set_first_endTime t e (b # bs) =
     (if btype b = t then b\<lparr>endTime := e\<rparr> # bs else b # set_first_endTime t e bs)"

definition apply_buff :: "BuffType \<Rightarrow> real \<Rightarrow> Buff list \<Rightarrow> Buff list" where
  "apply_buff t adj bs =
     (case find (\<lambda>b. btype b = t) bs of
        Some existing \<Rightarrow> set_first_endTime t (adj + 10000) bs
      | None \<Rightarrow> bs @ [\<lparr>btype = t, endTime = adj + 10000\<rparr>])"

definition powerUp_callback :: "real \<Rightarrow> nat \<Rightarrow> World \<Rightarrow> World" where
  "powerUp_callback adj index w =
     (let pu0 = powerUps w ! index;
          pu = pu0\<lparr>y := y pu0 + speed pu0\<rparr>;
          w1 = w\<lparr>powerUps := (powerUps w)[index := pu]\<rparr>;
          w2 = (if overlaps (player w1) pu
                then w1\<lparr>player := (player w1)
                           \<lparr>activeBuffs := apply_buff (putype pu) adj (activeBuffs (player w1))\<rparr>,
                        powerUps := splice1 index (powerUps w1)\<rparr>
                else w1)
      in if y pu > CANVAS_HEIGHT then w2\<lparr>powerUps := splice1 index (powerUps w2)\<rparr> else w2)"

text \<open>The \<open>n\<close> visits from the index \<open>k\<close> on, and the whole loop.\<close>

definition powerUps_visits :: "real \<Rightarrow> nat \<Rightarrow> nat \<Rightarrow> World \<Rightarrow> World" where
  "powerUps_visits adj n k w =
     forEach (\<lambda>s. length (powerUps s)) (powerUp_callback adj) n k w"

definition powerUps_loop :: "real \<Rightarrow> World \<Rightarrow> World" where
  "powerUps_loop adj w = powerUps_visits adj (length (powerUps w)) 0 w"

subsection \<open>Enemies\<close>

definition boss_pattern :: "real \<Rightarrow> int" where
  "boss_pattern adj = \<lfloor>js_rem (adj / 5000) 3\<rfloor>"

text \<open>The velocity of the targeted burst, aimed from the boss's centre at the player's.\<close>

definition targeted_velocity :: "Player \<Rightarrow> Enemy \<Rightarrow> jsnum \<times> jsnum" where
  "targeted_velocity p e =
     (let dx = (x p + width p / 2) - (x e + width e / 2);
          dy = (y p + height p / 2) - (y e + height e / 2);
          dist = sqrt (dx * dx + dy * dy)
      in (js_mul (js_div dx dist) 3.5, js_mul (js_div dy dist) 3.5))"

definition boss_bullets :: "real \<Rightarrow> Player \<Rightarrow> Enemy \<Rightarrow> Bullet list" where
  "boss_bullets adj p e =
     (let pattern = boss_pattern adj
      in if pattern = 0
         then map (\<lambda>angle.
                \<lparr>x = Fin (x e + width e / 2 - 3), y = Fin (y e + height e - 10), width = 6,
                 height = 15, speed = 2.2, owner = owner_enemy, damage = 20,
                 vx = Some (Fin (sin angle * 2.5)), vy = Some (Fin (cos angle * 2.5))\<rparr>)
                [- 0.4, - 0.2, 0, 0.2, 0.4]
         else if pattern = 1
         then map (\<lambda>i. let angle = (real i / 12) * pi * 2 in
                \<lparr>x = Fin (x e + width e / 2 - 3), y = Fin (y e + height e / 2), width = 6,
                 height = 6, speed = 2.0, owner = owner_enemy, damage = 15,
                 vx = Some (Fin (cos angle * 2.0)), vy = Some (Fin (sin angle * 2.0))\<rparr>)
                [0 ..< 12]
         else [\<lparr>x = Fin (x e + width e / 2 - 3), y = Fin (y e + height e - 10), width = 8,
                 height = 8, speed = 3.5, owner = owner_enemy, damage = 25,
                 vx = Some (fst (targeted_velocity p e)),
                 vy = Some (snd (targeted_velocity p e))\<rparr>])"

definition enemy_bullet :: "Enemy \<Rightarrow> Bullet" where
  "enemy_bullet e =
     \<lparr>x = Fin (x e + width e / 2 - 2), y = Fin (y e + height e), width = 4, height = 10,
      speed = 1.8, owner = owner_enemy, damage = 10, vx = None, vy = None\<rparr>"

text \<open>Movement and shooting of one enemy: the enemy afterwards and the bullets it fires.\<close>

definition enemy_act :: "real \<Rightarrow> Player \<Rightarrow> Enemy \<Rightarrow> Enemy \<times> Bullet list" where
  "enemy_act adj p e =
     (if etype e = boss
      then
        (let e1 = (if y e < 80 then e\<lparr>y := y e + speed e\<rparr>
                   else e\<lparr>x := max 20 (min (CANVAS_WIDTH - width e - 20)
                                             (x e + sin (adj / 1000) * 1.5))\<rparr>)
         in if adj - elastShot e1 > efireRate e1
            then (e1\<lparr>elastShot := adj\<rparr>, boss_bullets adj p e1)
            else (e1, []))
      else
        (let e1 = e\<lparr>y := y e + speed e\<rparr>
         in if adj - elastShot e1 > efireRate e1
            then (e1\<lparr>elastShot := adj\<rparr>, [enemy_bullet e1])
            else (e1, [])))"

definition award :: "EnemyType \<Rightarrow> real" where
  "award t = (if t = boss then 5000 else if t = heavy then 500 else 100)"

definition enemy_callback :: "real \<Rightarrow> nat \<Rightarrow> World \<Rightarrow> World" where
  "enemy_callback adj index w =
     (let p = player w;
          (e1, new) = enemy_act adj p (enemies w ! index);
          hit = overlaps p e1;
          hasShield = hasBuff shield p;
          p1 = (if hit \<and> \<not> hasShield then p\<lparr>health := health p - 20\<rparr> else p);
          e2 = (if hit then e1\<lparr>ehealth := 0\<rparr> else e1);
          remove = (y e2 > CANVAS_HEIGHT \<or> ehealth e2 \<le> 0);
          p2 = (if remove \<and> ehealth e2 \<le> 0
                then p1\<lparr>score := score p1 + award (etype e2)\<rparr> else p1);
          es = (enemies w)[index := e2]
      in w\<lparr>player := p2,
            bullets := bullets w @ new,
            lastBossDefeatedTime :=
              (if remove \<and> etype e2 = boss then adj - gameStartTime w
               else lastBossDefeatedTime w),
            enemies := (if remove then splice1 index es else es)\<rparr>)"

definition enemies_visits :: "real \<Rightarrow> nat \<Rightarrow> nat \<Rightarrow> World \<Rightarrow> World" where
  "enemies_visits adj n k w =
     forEach (\<lambda>s. length (enemies s)) (enemy_callback adj) n k w"

definition enemies_loop :: "real \<Rightarrow> World \<Rightarrow> World" where
  "enemies_loop adj w = enemies_visits adj (length (enemies w)) 0 w"

subsection \<open>Bullets\<close>

definition bullet_overlaps :: "Bullet \<Rightarrow> (real, 'a) Entity_scheme \<Rightarrow> bool" where
  "bullet_overlaps b e =
     (js_lt (x b) (Fin (x e + width e)) \<and> js_gt (js_add (x b) (Fin (width b))) (Fin (x e)) \<and>
      js_lt (y b) (Fin (y e + height e)) \<and> js_gt (js_add (y b) (Fin (height b))) (Fin (y e)))"

text \<open>
  A player's bullet against every enemy, in the order of the array. A hit moves the
  bullet to \<open>y = -100\<close> at once, and the enemies after it are tested against the bullet
  there.
\<close>

fun hit_enemies :: "Bullet \<Rightarrow> Enemy list \<Rightarrow> Bullet \<times> Enemy list" where
  "hit_enemies b [] = (b, [])"
| "hit_enemies b (e # es) =
     (if bullet_overlaps b e
      then (let (b', es') = hit_enemies (b\<lparr>y := Fin (- 100)\<rparr>) es
            in (b', e\<lparr>ehealth := ehealth e - damage b\<rparr> # es'))
      else (let (b', es') = hit_enemies b es in (b', e # es')))"

definition bullet_move :: "Bullet \<Rightarrow> Bullet" where
  "bullet_move b =
     (case (vx b, vy b) of
        (Some bvx, Some bvy) \<Rightarrow> b\<lparr>x := js_add (x b) bvx, y := js_add (y b) bvy\<rparr>
      | _ \<Rightarrow> b\<lparr>y := js_add (y b) (Fin (speed b))\<rparr>)"

definition bullet_out :: "Bullet \<Rightarrow> bool" where
  "bullet_out b =
     (js_lt (y b) (Fin (- 50)) \<or> js_gt (y b) (Fin (CANVAS_HEIGHT + 50)) \<or>
      js_lt (x b) (Fin (- 50)) \<or> js_gt (x b) (Fin (CANVAS_WIDTH + 50)))"

definition bullet_callback :: "nat \<Rightarrow> World \<Rightarrow> World" where
  "bullet_callback bIndex w =
     (let b1 = bullet_move (bullets w ! bIndex);
          p = player w;
          (b2, es, p1) =
            (if owner b1 = owner_player
             then (let (b', es') = hit_enemies b1 (enemies w) in (b', es', p))
             else if bullet_overlaps b1 p
             then (b1\<lparr>y := Fin (CANVAS_HEIGHT + 100)\<rparr>, enemies w,
                   if hasBuff shield p then p else p\<lparr>health := health p - damage b1\<rparr>)
             else (b1, enemies w, p));
          bs = (bullets w)[bIndex := b2]
      in w\<lparr>player := p1, enemies := es,
            bullets := (if bullet_out b2 then splice1 bIndex bs else bs)\<rparr>)"

definition bullets_visits :: "nat \<Rightarrow> nat \<Rightarrow> World \<Rightarrow> World" where
  "bullets_visits n k w = forEach (\<lambda>s. length (bullets s)) bullet_callback n k w"

definition bullets_loop :: "World \<Rightarrow> World" where
  "bullets_loop w = bullets_visits (length (bullets w)) 0 w"

subsection \<open>The whole tick\<close>

definition check_game_over :: "World \<Rightarrow> World" where
  "check_game_over w =
     (if health (player w) \<le> 0
      then setGameState
             (\<lambda>prev. let newScore = score (player w);
                          newHighScore = js_max (highScore prev) (Fin newScore);
                          newTotalCurrency = js_add (totalCurrency prev) (Fin newScore)
                      in prev\<lparr>status := gameover, gs_score := newScore,
                               highScore := newHighScore, totalCurrency := newTotalCurrency\<rparr>)
             w
      else w)"

definition update_buffs :: "real \<Rightarrow> World \<Rightarrow> World" where
  "update_buffs adj w =
     w\<lparr>player := (player w)\<lparr>activeBuffs := filter (\<lambda>b. endTime b > adj) (activeBuffs (player w))\<rparr>\<rparr>"

text \<open>
  The part of \<open>update\<close> for the status \<open>playing\<close>, from the adjusted timestamp on:
  first the entities, then the test for the end of the run. The frame gives the keys
  and the random draws; its timestamp is not read here.
\<close>

definition simulate :: "real \<Rightarrow> Frame \<Rightarrow> World \<Rightarrow> World" where
  "simulate adj f w =
     (let w1 = w\<lparr>player := move_player (keys f) (player w)\<rparr>;
          w2 = shoot adj (keys f) w1;
          w3 = spawnEnemy adj (rnd_etype f) (rnd_ex f) w2;
          w4 = spawnPowerUp adj (rnd_putype f) (rnd_pux f) w3;
          w5 = spawnBoss adj w4;
          w6 = update_buffs adj w5;
          w7 = powerUps_loop adj w6;
          w8 = enemies_loop adj w7
      in bullets_loop w8)"

definition tick :: "real \<Rightarrow> Frame \<Rightarrow> World \<Rightarrow> World" where
  "tick adj f w = check_game_over (simulate adj f w)"

definition update :: "Frame \<Rightarrow> World \<Rightarrow> World" where
  "update f w =
     (if status (captured w) = paused then w
      else if status (captured w) = countdown then update_countdown f w
      else if status (captured w) \<noteq> playing then w
      else tick (adjustedTimestamp f w) f w)"

text \<open>The events of a session and their effect, in order.\<close>

datatype Event = TogglePause real | RenderFrame Frame

fun step :: "World \<Rightarrow> Event \<Rightarrow> World" where
  "step w (TogglePause now) = togglePause now w"
| "step w (RenderFrame f) = update f w"

definition run :: "Event list \<Rightarrow> World \<Rightarrow> World" where
  "run evs w = foldl step w evs"

section \<open>The persisted state at startup\<close>

text \<open>
  \<open>localStorage.getItem\<close> gives \<open>null\<close> for a key that is absent, so the storage is a map
  from keys to strings. A string is truthy when it is not empty.
\<close>

type_synonym Storage = "string \<rightharpoonup> string"

definition truthy :: "string option \<Rightarrow> bool" where
  "truthy v = (case v of None \<Rightarrow> False | Some s \<Rightarrow> s \<noteq> [])"

text \<open>
  The built-in \<open>parseInt\<close> with one argument: leading white space is skipped, a sign is
  read, the prefix \<open>0x\<close> or \<open>0X\<close> selects radix 16, and the longest run of digits of the
  radix is the value; without a digit the result is \<open>NaN\<close>. (White space is the ASCII
  white space here.)
\<close>

definition is_ws :: "char \<Rightarrow> bool" where
  "is_ws c = (c = CHR '' '' \<or> c = CHR 0x09 \<or> c = CHR 0x0A \<or> c = CHR 0x0B \<or> c = CHR 0x0C \<or> c = CHR 0x0D)"

definition digit_val :: "nat \<Rightarrow> char \<Rightarrow> nat option" where
  "digit_val R c =
     (let n = (of_char c :: nat);
          v = (if 48 \<le> n \<and> n \<le> 57 then Some (n - 48)
               else if 97 \<le> n \<and> n \<le> 122 then Some (n - 87)
               else if 65 \<le> n \<and> n \<le> 90 then Some (n - 55)
               else None)
      in case v of None \<Rightarrow> None | Some d \<Rightarrow> if d < R then Some d else None)"

fun digits_prefix :: "nat \<Rightarrow> string \<Rightarrow> nat list" where
  "digits_prefix R [] = []"
| "digits_prefix R (c # cs) =
     (case digit_val R c of None \<Rightarrow> [] | Some d \<Rightarrow> d # digits_prefix R cs)"

definition digits_value :: "nat \<Rightarrow> nat list \<Rightarrow> nat" where
  "digits_value R ds = foldl (\<lambda>a d. a * R + d) 0 ds"

definition parseInt :: "string \<Rightarrow> jsnum" where
  "parseInt s =
     (let S = dropWhile is_ws s;
          sign = (if S \<noteq> [] \<and> hd S = CHR ''-'' then - 1 else 1 :: real);
          S1 = (if S \<noteq> [] \<and> (hd S = CHR ''+'' \<or> hd S = CHR ''-'') then tl S else S);
          hex = (take 2 S1 = ''0x'' \<or> take 2 S1 = ''0X'');
          R = (if hex then 16 else 10);
          Z = digits_prefix R (if hex then drop 2 S1 else S1)
      in if Z = [] then NaN else Fin (sign * real (digits_value R Z)))"

text \<open>
  The built-in \<open>JSON.parse\<close> throws a \<open>SyntaxError\<close> on a text that is not JSON. A JSON
  text starts, after white space, with the first character of a value: a quote, a
  bracket, a brace, a minus sign, a digit, or the first letter of \<open>true\<close>, \<open>false\<close> or
  \<open>null\<close>; any other text is rejected by \<open>JSON_parse\<close> itself. On the texts that start
  like a value the result is that of the parameter \<open>dec\<close>, \<open>None\<close> standing for the
  exception. The initializer uses the value as the list of owned planes without a
  check; values that are not lists of strings are outside the model.
\<close>

datatype Exception = SyntaxError

definition is_json_ws :: "char \<Rightarrow> bool" where
  "is_json_ws c = (c = CHR '' '' \<or> c = CHR 0x09 \<or> c = CHR 0x0A \<or> c = CHR 0x0D)"

definition json_start :: "char \<Rightarrow> bool" where
  "json_start c = (c \<in> set ''\"[{-0123456789tfn'')"

definition JSON_parse :: "(string \<Rightarrow> 'a option) \<Rightarrow> string \<Rightarrow> Exception + 'a" where
  "JSON_parse dec s =
     (case dropWhile is_json_ws s of
        [] \<Rightarrow> Inl SyntaxError
      | c # _ \<Rightarrow>
          if \<not> json_start c then Inl SyntaxError
          else (case dec s of None \<Rightarrow> Inl SyntaxError | Some v \<Rightarrow> Inr v))"

text \<open>The initializer of \<open>gameState\<close>; an exception of \<open>JSON.parse\<close> leaves it.\<close>

definition initial_gameState ::
  "(string \<Rightarrow> PlaneType list option) \<Rightarrow> Storage \<Rightarrow> Exception + GameState" where
  "initial_gameState dec localStorage =
     (let savedHighScore = localStorage ''1942_highScore'';
          savedCurrency = localStorage ''1942_currency'';
          savedPlanes = localStorage ''1942_ownedPlanes'';
          savedSelected = localStorage ''1942_selectedPlane'';
          hs = (if truthy savedHighScore then parseInt (the savedHighScore) else Fin 0);
          cur = (if truthy savedCurrency then parseInt (the savedCurrency) else Fin 0);
          sel = (if truthy savedSelected then the savedSelected else ''standard'')
      in case (if truthy savedPlanes then JSON_parse dec (the savedPlanes)
               else Inr [''standard'']) of
           Inl e \<Rightarrow> Inl e
         | Inr owned \<Rightarrow>
             Inr \<lparr>status = menu, gs_score = 0, highScore = hs, totalCurrency = cur,
                  ownedPlanes = owned, selectedPlane = sel, countdownValue = None\<rparr>)"

section \<open>The shop\<close>

text \<open>
  The button of one plane in the shop. For an owned plane it is the button that
  selects; otherwise it is the button that purchases, disabled when the currency does
  not reach the price, and its handler tests \<open>canAfford\<close> again.
\<close>

definition isOwned :: "PlaneData \<Rightarrow> GameState \<Rightarrow> bool" where
  "isOwned plane gs = (pd_id plane \<in> set (ownedPlanes gs))"

definition canAfford :: "PlaneData \<Rightarrow> GameState \<Rightarrow> bool" where
  "canAfford plane gs = js_ge (totalCurrency gs) (Fin (pd_price plane))"

definition shop_click :: "PlaneData \<Rightarrow> World \<Rightarrow> World" where
  "shop_click plane w =
     (let gs = gameState w
      in if isOwned plane gs
         then setGameState (\<lambda>prev. prev\<lparr>selectedPlane := pd_id plane\<rparr>) w
         else if canAfford plane gs
         then
           (let newOwned = ownedPlanes gs @ [pd_id plane];
                newCurrency = js_sub (totalCurrency gs) (Fin (pd_price plane))
            in setGameState
                 (\<lambda>prev. prev\<lparr>ownedPlanes := newOwned, totalCurrency := newCurrency,
                              selectedPlane := pd_id plane\<rparr>) w)
         else w)"

section \<open>Two sessions that differ in the length of a pause\<close>

text \<open>
  The state of the simulation is the state without the bookkeeping of the clock: the
  accumulated paused time, the start of the last pause and the digit of the countdown.
\<close>

definition reframe :: "real \<Rightarrow> real \<Rightarrow> GameState \<Rightarrow> GameState \<Rightarrow> World \<Rightarrow> World" where
  "reframe a b gs cp w =
     w\<lparr>totalPausedTime := a, pauseStartTime := b, gameState := gs, captured := cp\<rparr>"









section \<open>Replacing one entity of a collection\<close>

text \<open>
  The state with another entity at one index of a collection; with these one can say
  that a computation does not depend on the entity at that index.
\<close>

definition set_enemy :: "nat \<Rightarrow> Enemy \<Rightarrow> World \<Rightarrow> World" where
  "set_enemy i v w = w\<lparr>enemies := (enemies w)[i := v]\<rparr>"

definition set_bullet :: "nat \<Rightarrow> Bullet \<Rightarrow> World \<Rightarrow> World" where
  "set_bullet i v w = w\<lparr>bullets := (bullets w)[i := v]\<rparr>"

definition set_powerUp :: "nat \<Rightarrow> PowerUp \<Rightarrow> World \<Rightarrow> World" where
  "set_powerUp i v w = w\<lparr>powerUps := (powerUps w)[i := v]\<rparr>"

section \<open>The buffs of the player\<close>

text \<open>
  The buffs are in order at the adjusted time \<open>t\<close> when no two of them have the same
  type and none expires later than 10000 ms after \<open>t\<close>. The expiry of a type is the
  expiry of the first buff of the type, as \<open>find\<close> gives it.
\<close>

definition buffs_ok :: "real \<Rightarrow> Player \<Rightarrow> bool" where
  "buffs_ok t p \<longleftrightarrow>
     distinct (map btype (activeBuffs p)) \<and>
     list_all (\<lambda>b. endTime b \<le> t + 10000) (activeBuffs p)"

definition expiry :: "BuffType \<Rightarrow> Player \<Rightarrow> real option" where
  "expiry t p = map_option endTime (find (\<lambda>b. btype b = t) (activeBuffs p))"

section \<open>Example states\<close>

text \<open>The player as \<open>resetGame\<close> leaves it with the standard plane selected.\<close>

definition standard_player :: Player where
  "standard_player =
     \<lparr>x = 220, y = 560, width = 40, height = 40, speed = 2.5, ptype = ''standard'',
      health = 100, maxHealth = 100, score = 0, lastShot = 0, fireRate = 200,
      activeBuffs = []\<rparr>"

definition menu_state :: GameState where
  "menu_state =
     \<lparr>status = menu, gs_score = 0, highScore = Fin 0, totalCurrency = Fin 0,
      ownedPlanes = [''standard''], selectedPlane = ''standard'', countdownValue = None\<rparr>"

text \<open>The state of the component before the first run.\<close>

definition initial_world :: World where
  "initial_world =
     \<lparr>gameState = menu_state, captured = menu_state,
      player = standard_player\<lparr>fireRate := 250\<rparr>,
      enemies = [], bullets = [], powerUps = [],
      lastEnemySpawn = 0, lastPowerUpSpawn = 0, lastBossDefeatedTime = 0, bossCount = 0,
      gameStartTime = 0, pauseStartTime = 0, totalPausedTime = 0\<rparr>"

definition a_boss :: Enemy where
  "a_boss =
     \<lparr>x = 200, y = 80, width = 80, height = 80, speed = 0.4, etype = boss, ehealth = 500,
      emaxHealth = 500, elastShot = 0, efireRate = 800\<rparr>"

text \<open>A frame at which every clock reads \<open>t\<close>, with no key held.\<close>

definition frame_at :: "real \<Rightarrow> Frame" where
  "frame_at t =
     \<lparr>timestamp = t, now_count = t, now_acc = t, keys = (\<lambda>c. False),
      rnd_etype = 0, rnd_ex = 0, rnd_putype = 0, rnd_pux = 0\<rparr>"

text \<open>A run started at time 0.\<close>

definition playing_world :: World where
  "playing_world = resetGame 0 initial_world"


text \<open>
  Three states in which the first entity of a collection is removed at its visit: an
  enemy that leaves the playfield before an enemy without health, a bullet that leaves
  the playfield before a bullet that is on the player, and a power-up that is on the
  player before a power-up below the playfield.
\<close>

definition skip_enemies_world :: World where
  "skip_enemies_world =
     initial_world\<lparr>enemies :=
       [\<lparr>x = 300, y = 640, width = 40, height = 40, speed = 1, etype = basic, ehealth = 20,
         emaxHealth = 20, elastShot = 0, efireRate = 2500\<rparr>,
        \<lparr>x = 100, y = 100, width = 40, height = 40, speed = 0.6, etype = heavy, ehealth = 0,
         emaxHealth = 50, elastShot = 0, efireRate = 1500\<rparr>]\<rparr>"

definition skip_bullets_world :: World where
  "skip_bullets_world =
     initial_world\<lparr>bullets :=
       [\<lparr>x = Fin 100, y = Fin (- 48), width = 4, height = 12, speed = - 4,
         owner = owner_player, damage = 10, vx = None, vy = None\<rparr>,
        \<lparr>x = Fin 230, y = Fin 570, width = 4, height = 10, speed = 1.8,
         owner = owner_enemy, damage = 10, vx = None, vy = None\<rparr>]\<rparr>"

definition skip_powerUps_world :: World where
  "skip_powerUps_world =
     initial_world\<lparr>powerUps :=
       [\<lparr>x = 225, y = 565, width = 30, height = 30, speed = 1.2, putype = shield\<rparr>,
        \<lparr>x = 10, y = 641, width = 30, height = 30, speed = 1.2, putype = rapidFire\<rparr>]\<rparr>"

text \<open>
  The last tick of a run: the player has a health of 10, a bullet of the player is on
  an enemy with a health of 10, and a bullet of an enemy is on the player; and the
  state after that tick.
\<close>

definition last_tick_world :: World where
  "last_tick_world =
     initial_world
       \<lparr>gameState := menu_state\<lparr>status := playing\<rparr>,
        captured := menu_state\<lparr>status := playing\<rparr>,
        player := standard_player\<lparr>health := 10\<rparr>,
        enemies :=
          [\<lparr>x = 100, y = 100, width = 40, height = 40, speed = 1, etype = basic, ehealth = 10,
            emaxHealth = 20, elastShot = 1000, efireRate = 2500\<rparr>],
        bullets :=
          [\<lparr>x = Fin 110, y = Fin 120, width = 4, height = 12, speed = - 4,
            owner = owner_player, damage = 10, vx = None, vy = None\<rparr>,
           \<lparr>x = Fin 400, y = Fin 300, width = 4, height = 10, speed = 1.8,
            owner = owner_enemy, damage = 10, vx = None, vy = None\<rparr>,
           \<lparr>x = Fin 230, y = Fin 570, width = 4, height = 10, speed = 1.8,
            owner = owner_enemy, damage = 10, vx = None, vy = None\<rparr>],
        lastEnemySpawn := 1000\<rparr>"

definition after_last_tick :: World where
  "after_last_tick =
     initial_world
       \<lparr>gameState := menu_state\<lparr>status := gameover\<rparr>,
        captured := menu_state\<lparr>status := gameover\<rparr>,
        player := standard_player\<lparr>health := 0\<rparr>,
        enemies :=
          [\<lparr>x = 100, y = 101, width = 40, height = 40, speed = 1, etype = basic, ehealth = 0,
            emaxHealth = 20, elastShot = 1000, efireRate = 2500\<rparr>],
        bullets :=
          [\<lparr>x = Fin 400, y = Fin 300, width = 4, height = 10, speed = 1.8,
            owner = owner_enemy, damage = 10, vx = None, vy = None\<rparr>],
        lastEnemySpawn := 1000\<rparr>"

text \<open>
  Two shield power-ups on the player in the same tick, with another power-up between
  them in the collection, and the states after the first and the second pickup.
\<close>

definition double_pickup_world :: World where
  "double_pickup_world =
     initial_world\<lparr>powerUps :=
       [\<lparr>x = 225, y = 565, width = 30, height = 30, speed = 1.2, putype = shield\<rparr>,
        \<lparr>x = 10, y = 100, width = 30, height = 30, speed = 1.2, putype = rapidFire\<rparr>,
        \<lparr>x = 225, y = 560, width = 30, height = 30, speed = 1.2, putype = shield\<rparr>]\<rparr>"

definition after_first_pickup :: World where
  "after_first_pickup =
     initial_world
       \<lparr>player := standard_player
          \<lparr>fireRate := 250, activeBuffs := [\<lparr>btype = shield, endTime = 11000\<rparr>]\<rparr>,
        powerUps :=
          [\<lparr>x = 10, y = 100, width = 30, height = 30, speed = 1.2, putype = rapidFire\<rparr>,
           \<lparr>x = 225, y = 560, width = 30, height = 30, speed = 1.2, putype = shield\<rparr>]\<rparr>"

definition after_second_pickup :: World where
  "after_second_pickup =
     initial_world
       \<lparr>player := standard_player
          \<lparr>fireRate := 250, activeBuffs := [\<lparr>btype = shield, endTime = 11000\<rparr>]\<rparr>,
        powerUps :=
          [\<lparr>x = 10, y = 100, width = 30, height = 30, speed = 1.2, putype = rapidFire\<rparr>]\<rparr>"

text \<open>
  A rapid-fire and a shield power-up on a player whose shield expires at 4000, with
  another power-up between them in the collection; and the state after the pickup of
  the first of them.
\<close>

definition mixed_pickup_world :: World where
  "mixed_pickup_world =
     initial_world
       \<lparr>player := standard_player\<lparr>activeBuffs := [\<lparr>btype = shield, endTime = 4000\<rparr>]\<rparr>,
        powerUps :=
          [\<lparr>x = 225, y = 565, width = 30, height = 30, speed = 1.2, putype = rapidFire\<rparr>,
           \<lparr>x = 10, y = 100, width = 30, height = 30, speed = 1.2, putype = spreadShot\<rparr>,
           \<lparr>x = 225, y = 560, width = 30, height = 30, speed = 1.2, putype = shield\<rparr>]\<rparr>"

definition after_rapid_pickup :: World where
  "after_rapid_pickup =
     initial_world
       \<lparr>player := standard_player
          \<lparr>activeBuffs := [\<lparr>btype = shield, endTime = 4000\<rparr>,
                           \<lparr>btype = rapidFire, endTime = 11000\<rparr>]\<rparr>,
        powerUps :=
          [\<lparr>x = 10, y = 100, width = 30, height = 30, speed = 1.2, putype = spreadShot\<rparr>,
           \<lparr>x = 225, y = 560, width = 30, height = 30, speed = 1.2, putype = shield\<rparr>]\<rparr>"

text \<open>
  Five enemies at once: a boss, a heavy and a basic enemy without health away from the
  player, a fast enemy with some health on the player, and a basic enemy with some
  health on the lower border of the playfield.
\<close>

definition defeated_world :: World where
  "defeated_world =
     initial_world\<lparr>enemies :=
       [a_boss\<lparr>ehealth := 0\<rparr>,
        \<lparr>x = 100, y = 100, width = 40, height = 40, speed = 0.6, etype = heavy, ehealth = 0,
         emaxHealth = 50, elastShot = 0, efireRate = 1500\<rparr>,
        \<lparr>x = 300, y = 100, width = 40, height = 40, speed = 1, etype = basic, ehealth = - 5,
         emaxHealth = 20, elastShot = 0, efireRate = 2500\<rparr>,
        \<lparr>x = 220, y = 550, width = 40, height = 40, speed = 1.5, etype = fast, ehealth = 10,
         emaxHealth = 20, elastShot = 0, efireRate = 2500\<rparr>,
        \<lparr>x = 400, y = 640, width = 40, height = 40, speed = 1, etype = basic, ehealth = 20,
         emaxHealth = 20, elastShot = 0, efireRate = 2500\<rparr>]\<rparr>"

section \<open>Movement and spawning\<close>

lemma move_keys_dims [simp]:
  "width (move_left k p) = width p" "height (move_left k p) = height p"
  "width (move_right k p) = width p" "height (move_right k p) = height p"
  "width (move_up k p) = width p" "height (move_up k p) = height p"
  "width (move_down k p) = width p" "height (move_down k p) = height p"
  by (simp_all add: move_left_def move_right_def move_up_def move_down_def)

lemma move_player_dims [simp]:
  "width (move_player k p) = width p" "height (move_player k p) = height p"
  by (simp_all add: move_player_def clamp_bounds_def)

text \<open>
  Claim C7. After the movement phase of a tick the player is inside the playfield:
  \<open>0 \<le> x \<le> CANVAS_WIDTH - width\<close> and \<open>0 \<le> y \<le> CANVAS_HEIGHT - height\<close>, whatever
  keys are held and wherever the player was. The player must fit into the playfield
  for the upper bounds; its size is 40 by 40 in every state the program builds.
\<close>

theorem player_in_bounds_after_movement:
  assumes "width p \<le> CANVAS_WIDTH" and "height p \<le> CANVAS_HEIGHT"
  shows "0 \<le> x (move_player k p) \<and> x (move_player k p) \<le> CANVAS_WIDTH - width (move_player k p) \<and>
         0 \<le> y (move_player k p) \<and> y (move_player k p) \<le> CANVAS_HEIGHT - height (move_player k p)"
  using assms by (simp add: move_player_def clamp_bounds_def)

theorem player_in_bounds_after_movement_witness:
  "width (standard_player\<lparr>x := 1\<rparr>) \<le> CANVAS_WIDTH \<and>
   height (standard_player\<lparr>x := 1\<rparr>) \<le> CANVAS_HEIGHT \<and>
   x (move_player (\<lambda>c. c = ''ArrowLeft'') (standard_player\<lparr>x := 1\<rparr>)) = 0 \<and>
   0 \<le> y (move_player (\<lambda>c. c = ''ArrowLeft'') (standard_player\<lparr>x := 1\<rparr>)) \<and>
   y (move_player (\<lambda>c. c = ''ArrowLeft'') (standard_player\<lparr>x := 1\<rparr>))
     \<le> CANVAS_HEIGHT - height (move_player (\<lambda>c. c = ''ArrowLeft'') (standard_player\<lparr>x := 1\<rparr>))"
  using player_in_bounds_after_movement
          [of "standard_player\<lparr>x := 1\<rparr>" "\<lambda>c. c = ''ArrowLeft''"]
  by (simp add: standard_player_def CANVAS_WIDTH_def CANVAS_HEIGHT_def move_player_def
        clamp_bounds_def move_left_def move_right_def move_up_def move_down_def)

text \<open>
  Claim C6. While an enemy of type boss is in the collection, \<open>spawnEnemy\<close> changes
  nothing: no basic, fast or heavy enemy is added, at any timestamp, for any random
  draws and any state of the spawn timer.
\<close>

theorem no_enemy_spawn_while_boss:
  assumes "\<exists>e \<in> set (enemies w). etype e = boss"
  shows "spawnEnemy ts r_type r_x w = w"
  using assms by (simp add: spawnEnemy_def bossActive_def list_ex_iff)

theorem no_enemy_spawn_while_boss_witness:
  "(\<exists>e \<in> set (enemies (initial_world\<lparr>enemies := [a_boss]\<rparr>)). etype e = boss) \<and>
   spawnEnemy 99999 0.5 0.5 (initial_world\<lparr>enemies := [a_boss]\<rparr>)
     = initial_world\<lparr>enemies := [a_boss]\<rparr> \<and>
   length (enemies (spawnEnemy 99999 0.5 0.5 initial_world)) = 1"
  using no_enemy_spawn_while_boss [of "initial_world\<lparr>enemies := [a_boss]\<rparr>" 99999 "0.5" "0.5"]
  by (simp add: a_boss_def initial_world_def spawnEnemy_def bossActive_def random_pick_def)

section \<open>The shop\<close>

lemma setGameState_fields [simp]:
  "gameState (setGameState upd w) = upd (gameState w)"
  "player (setGameState upd w) = player w"
  "enemies (setGameState upd w) = enemies w"
  "bullets (setGameState upd w) = bullets w"
  "powerUps (setGameState upd w) = powerUps w"
  "totalPausedTime (setGameState upd w) = totalPausedTime w"
  "pauseStartTime (setGameState upd w) = pauseStartTime w"
  "gameStartTime (setGameState upd w) = gameStartTime w"
  by (simp_all add: setGameState_def Let_def)

text \<open>
  The currency is a finite number or \<open>NaN\<close> in every state that the program builds:
  \<open>parseInt\<close> gives nothing else, and the end of a run and the purchase keep it so.
\<close>

lemma parseInt_kinds:
  "parseInt s = NaN \<or> (\<exists>c. parseInt s = Fin c)"
  by (simp add: parseInt_def Let_def)

lemma currency_kinds:
  "initial_gameState dec st = Inr gs \<Longrightarrow>
     totalCurrency gs = NaN \<or> (\<exists>c. totalCurrency gs = Fin c)"
  "totalCurrency (gameState w) = NaN \<or> (\<exists>c. totalCurrency (gameState w) = Fin c) \<Longrightarrow>
     totalCurrency (gameState (check_game_over w)) = NaN \<or>
     (\<exists>c. totalCurrency (gameState (check_game_over w)) = Fin c)"
  "totalCurrency (gameState w) = NaN \<or> (\<exists>c. totalCurrency (gameState w) = Fin c) \<Longrightarrow>
     totalCurrency (gameState (shop_click plane w)) = NaN \<or>
     (\<exists>c. totalCurrency (gameState (shop_click plane w)) = Fin c)"
proof -
  show "initial_gameState dec st = Inr gs \<Longrightarrow>
     totalCurrency gs = NaN \<or> (\<exists>c. totalCurrency gs = Fin c)"
    using parseInt_kinds [of "the (st ''1942_currency'')"]
    by (auto simp add: initial_gameState_def Let_def split: sum.splits if_splits)
  show "totalCurrency (gameState w) = NaN \<or> (\<exists>c. totalCurrency (gameState w) = Fin c) \<Longrightarrow>
     totalCurrency (gameState (check_game_over w)) = NaN \<or>
     (\<exists>c. totalCurrency (gameState (check_game_over w)) = Fin c)"
    by (auto simp add: check_game_over_def Let_def)
  show "totalCurrency (gameState w) = NaN \<or> (\<exists>c. totalCurrency (gameState w) = Fin c) \<Longrightarrow>
     totalCurrency (gameState (shop_click plane w)) = NaN \<or>
     (\<exists>c. totalCurrency (gameState (shop_click plane w)) = Fin c)"
    by (auto simp add: shop_click_def isOwned_def canAfford_def js_sub_def Let_def)
qed



section \<open>The persisted state at startup\<close>

text \<open>
  Claim C4 asks that malformed persisted values never make the initialization throw
  and that they give the defaults. The initializer gives the defaults for the values
  that are absent or empty only. A text for the owned planes that is not JSON makes
  \<open>JSON.parse\<close> throw, and the exception leaves the initializer; a high score or a
  currency without a leading digit becomes \<open>NaN\<close>, not 0; a selected plane that is
  no plane id is kept as it is.
\<close>

theorem initial_gameState_malformed:
  "initial_gameState dec [''1942_ownedPlanes'' \<mapsto> ''standard''] = Inl SyntaxError \<and>
   initial_gameState dec [''1942_highScore'' \<mapsto> ''abc'']
     = Inr (menu_state\<lparr>highScore := NaN\<rparr>) \<and>
   initial_gameState dec [''1942_currency'' \<mapsto> ''abc'']
     = Inr (menu_state\<lparr>totalCurrency := NaN\<rparr>) \<and>
   initial_gameState dec [''1942_selectedPlane'' \<mapsto> ''zeppelin'']
     = Inr (menu_state\<lparr>selectedPlane := ''zeppelin''\<rparr>)"
  by (simp add: initial_gameState_def truthy_def JSON_parse_def is_json_ws_def json_start_def
        parseInt_def is_ws_def digit_val_def menu_state_def)

text \<open>The values that are absent or empty do give the defaults.\<close>

lemma initial_gameState_missing:
  "initial_gameState dec Map.empty = Inr menu_state"
  "initial_gameState dec
     [''1942_highScore'' \<mapsto> [], ''1942_currency'' \<mapsto> [], ''1942_ownedPlanes'' \<mapsto> [],
      ''1942_selectedPlane'' \<mapsto> []]
     = Inr menu_state"
  by (simp_all add: initial_gameState_def truthy_def menu_state_def)

section \<open>The targeted burst of the boss\<close>

lemma sqrt_sum_squares_zero_iff:
  "sqrt (dx * dx + dy * dy) = 0 \<longleftrightarrow> dx = 0 \<and> dy = 0"
  by (simp add: sum_squares_eq_zero_iff power2_eq_square [symmetric])

text \<open>As long as the two centres differ, both components of the velocity are finite.\<close>

lemma targeted_velocity_finite:
  assumes "x p + width p / 2 \<noteq> x e + width e / 2 \<or> y p + height p / 2 \<noteq> y e + height e / 2"
  shows "is_finite (fst (targeted_velocity p e)) \<and> is_finite (snd (targeted_velocity p e))"
  using assms
  by (auto simp add: targeted_velocity_def Let_def js_div_def is_finite_def
        sqrt_sum_squares_zero_iff)










section \<open>The countdown\<close>

lemma playing_world_eq:
  "playing_world =
     initial_world\<lparr>gameState := menu_state\<lparr>status := playing\<rparr>,
                   captured := menu_state\<lparr>status := playing\<rparr>, player := standard_player\<rparr>"
  by (simp add: playing_world_def resetGame_def initial_world_def setGameState_def
        menu_state_def PLANES_def standard_player_def CANVAS_WIDTH_def CANVAS_HEIGHT_def Let_def)

text \<open>
  Claim C2 asks for a descent 3, 2, 1 that starts when the countdown starts, the first
  step after 500 ms and the others 1000 ms apart. The digit is computed from the time
  at which the pause began, not from the time at which the countdown began. After a
  pause of 5000 ms the first frame of the countdown, 16 ms after it began, already
  resumes play with no digit shown after the 3; after a pause of 2000 ms the first
  frame shows 2; after a pause of 100 ms the first frame shows 4.
\<close>

theorem countdown_counts_from_pause_start:
  "status (gameState (run [TogglePause 1000, TogglePause 6000, RenderFrame (frame_at 6016)]
                        playing_world)) = playing \<and>
   gameState (run [TogglePause 1000, TogglePause 3000, RenderFrame (frame_at 3016)] playing_world)
     = menu_state\<lparr>status := countdown, countdownValue := Some 2\<rparr> \<and>
   gameState (run [TogglePause 1000, TogglePause 1100, RenderFrame (frame_at 1116)] playing_world)
     = menu_state\<lparr>status := countdown, countdownValue := Some 4\<rparr>"
  by (simp add: run_def playing_world_eq initial_world_def togglePause_def setGameState_def
        menu_state_def update_def update_countdown_def countdownSeconds_def frame_at_def Let_def)

section \<open>The clock across a pause\<close>

lemma forEach_commute:
  assumes "\<And>k s. cb k (g s) = g (cb k s)" and "\<And>s. len (g s) = len s"
  shows "forEach len cb n k (g s) = g (forEach len cb n k s)"
  by (induction n arbitrary: k s) (simp_all add: assms)

lemma reframe_fields [simp]:
  "powerUps (reframe a b c d w) = powerUps w"
  "enemies (reframe a b c d w) = enemies w"
  "bullets (reframe a b c d w) = bullets w"
  "player (reframe a b c d w) = player w"
  "totalPausedTime (reframe a b c d w) = a"
  "pauseStartTime (reframe a b c d w) = b"
  "gameState (reframe a b c d w) = c"
  "captured (reframe a b c d w) = d"
  by (simp_all add: reframe_def)

lemma powerUp_callback_reframe:
  "powerUp_callback adj k (reframe a b c d w) = reframe a b c d (powerUp_callback adj k w)"
  by (simp add: powerUp_callback_def reframe_def Let_def)

lemma enemy_callback_reframe:
  "enemy_callback adj k (reframe a b c d w) = reframe a b c d (enemy_callback adj k w)"
  by (simp add: enemy_callback_def reframe_def Let_def split: prod.split)

lemma bullet_callback_reframe:
  "bullet_callback k (reframe a b c d w) = reframe a b c d (bullet_callback k w)"
  by (simp add: bullet_callback_def reframe_def Let_def split: prod.split)

lemma loops_reframe:
  "powerUps_loop adj (reframe a b c d w) = reframe a b c d (powerUps_loop adj w)"
  "enemies_loop adj (reframe a b c d w) = reframe a b c d (enemies_loop adj w)"
  "bullets_loop (reframe a b c d w) = reframe a b c d (bullets_loop w)"
  unfolding powerUps_loop_def enemies_loop_def bullets_loop_def
    powerUps_visits_def enemies_visits_def bullets_visits_def
  by (simp_all add: forEach_commute [where g = "reframe a b c d"]
        powerUp_callback_reframe enemy_callback_reframe bullet_callback_reframe)

lemma stages_reframe:
  "shoot adj ks (reframe a b c d w) = reframe a b c d (shoot adj ks w)"
  "spawnEnemy adj r1 r2 (reframe a b c d w) = reframe a b c d (spawnEnemy adj r1 r2 w)"
  "spawnPowerUp adj r1 r2 (reframe a b c d w) = reframe a b c d (spawnPowerUp adj r1 r2 w)"
  "spawnBoss adj (reframe a b c d w) = reframe a b c d (spawnBoss adj w)"
  "update_buffs adj (reframe a b c d w) = reframe a b c d (update_buffs adj w)"
  "(reframe a b c d w)\<lparr>player := p\<rparr> = reframe a b c d (w\<lparr>player := p\<rparr>)"
  by (simp_all add: shoot_def spawnEnemy_def spawnPowerUp_def spawnBoss_def update_buffs_def
        reframe_def Let_def bossActive_def)

lemma simulate_reframe:
  "simulate adj f (reframe a b c d w) = reframe a b c d (simulate adj f w)"
  by (simp add: simulate_def Let_def stages_reframe loops_reframe)

lemma reframe_self:
  "reframe (totalPausedTime w) (pauseStartTime w) (gameState w) (captured w) w = w"
  by (simp add: reframe_def)

lemma simulate_clock_fields [simp]:
  "totalPausedTime (simulate adj f w) = totalPausedTime w"
  "pauseStartTime (simulate adj f w) = pauseStartTime w"
  "gameState (simulate adj f w) = gameState w"
  "captured (simulate adj f w) = captured w"
proof -
  let ?r = "reframe (totalPausedTime w) (pauseStartTime w) (gameState w) (captured w)"
  have "simulate adj f w = simulate adj f (?r w)"
    by (simp add: reframe_self)
  also have "\<dots> = ?r (simulate adj f w)"
    by (rule simulate_reframe)
  finally have eq: "simulate adj f w = ?r (simulate adj f w)" .
  show "totalPausedTime (simulate adj f w) = totalPausedTime w"
    by (subst eq) simp
  show "pauseStartTime (simulate adj f w) = pauseStartTime w"
    by (subst eq) simp
  show "gameState (simulate adj f w) = gameState w"
    by (subst eq) simp
  show "captured (simulate adj f w) = captured w"
    by (subst eq) simp
qed






lemma tick_total [simp]:
  "totalPausedTime (tick adj f w) = totalPausedTime w"
  "pauseStartTime (tick adj f w) = pauseStartTime w"
  by (simp_all add: tick_def check_game_over_def)


lemma setGameState_more_fields [simp]:
  "lastEnemySpawn (setGameState upd w) = lastEnemySpawn w"
  "lastPowerUpSpawn (setGameState upd w) = lastPowerUpSpawn w"
  "lastBossDefeatedTime (setGameState upd w) = lastBossDefeatedTime w"
  "bossCount (setGameState upd w) = bossCount w"
  "captured (setGameState upd w)
     = (if status (upd (gameState w)) \<noteq> status (gameState w) then upd (gameState w)
        else captured w)"
  by (simp_all add: setGameState_def Let_def)


















section \<open>Removal during the loops\<close>

lemma forEach_commute_from:
  assumes "\<And>k s. k0 \<le> k \<Longrightarrow> cb k (g s) = g (cb k s)" and "\<And>s. len (g s) = len s"
  shows "k0 \<le> k \<Longrightarrow> forEach len cb n k (g s) = g (forEach len cb n k s)"
  by (induction n arbitrary: k s) (simp_all add: assms)

lemma forEach_split:
  "forEach len cb (a + b) k s = forEach len cb b (k + a) (forEach len cb a k s)"
  by (induction a arbitrary: k s) simp_all

lemma forEach_length_gt:
  assumes "\<And>k s. k < len s \<Longrightarrow> k \<le> len (cb k s)"
  shows "i < k \<Longrightarrow> i < len s \<Longrightarrow> i < len (forEach len cb n k s)"
proof (induction n arbitrary: k s)
  case 0
  then show ?case by simp
next
  case (Suc n)
  have "i < len (if k < len s then cb k s else s)"
    using Suc.prems assms [of k s] by auto
  then show ?case using Suc.prems by (simp add: Suc.IH)
qed

lemma length_splice1: "length (splice1 i xs) = (if i < length xs then length xs - 1 else length xs)"
  by (auto simp add: splice1_def)

lemma splice1_update_before:
  "i < k \<Longrightarrow> splice1 k (xs[i := v]) = (splice1 k xs)[i := v]"
  by (cases "i < length xs") (simp_all add: splice1_def take_update_swap list_update_append1)

lemma splice1_update_next:
  "Suc i < length xs \<Longrightarrow> splice1 i (xs[Suc i := v]) = (splice1 i xs)[i := v]"
  by (simp add: splice1_def list_update_append drop_update_swap)

lemma nth_splice1_next:
  "Suc i < length xs \<Longrightarrow> splice1 i xs ! i = xs ! Suc i"
  by (simp add: splice1_def nth_append)

lemma enemy_callback_set_before:
  "i < k \<Longrightarrow> enemy_callback adj k (set_enemy i v w) = set_enemy i v (enemy_callback adj k w)"
proof -
  assume "i < k"
  then have sw: "\<And>x. (enemies w)[i := v, k := x] = (enemies w)[k := x, i := v]"
    by (simp add: list_update_swap)
  show ?thesis using \<open>i < k\<close>
    by (simp add: enemy_callback_def set_enemy_def Let_def sw splice1_update_before
          split: prod.split)
qed

lemma enemy_callback_set_next:
  assumes "Suc i < length (enemies w)"
    and "length (enemies (enemy_callback adj i w)) < length (enemies w)"
  shows "enemy_callback adj i (set_enemy (Suc i) v w) = set_enemy i v (enemy_callback adj i w)"
proof (cases "enemy_act adj (player w) (enemies w ! i)")
  case (Pair e1 new)
  have sw: "\<And>x. (enemies w)[Suc i := v, i := x] = (enemies w)[i := x, Suc i := v]"
    by (simp add: list_update_swap)
  from Pair show ?thesis using assms
    by (auto simp add: enemy_callback_def set_enemy_def Let_def sw splice1_update_next
          split: if_splits)
qed

lemma enemy_callback_length:
  "k < length (enemies w) \<Longrightarrow> k \<le> length (enemies (enemy_callback adj k w))"
  by (auto simp add: enemy_callback_def Let_def length_splice1 split: prod.split)

lemma bullet_callback_set_before:
  "i < k \<Longrightarrow> bullet_callback k (set_bullet i v w) = set_bullet i v (bullet_callback k w)"
proof -
  assume "i < k"
  then have sw: "\<And>x. (bullets w)[i := v, k := x] = (bullets w)[k := x, i := v]"
    by (simp add: list_update_swap)
  show ?thesis using \<open>i < k\<close>
    by (simp add: bullet_callback_def set_bullet_def Let_def sw splice1_update_before
          split: prod.split)
qed

lemma bullet_callback_set_next:
  assumes "Suc i < length (bullets w)"
    and "length (bullets (bullet_callback i w)) < length (bullets w)"
  shows "bullet_callback i (set_bullet (Suc i) v w) = set_bullet i v (bullet_callback i w)"
proof (cases "hit_enemies (bullet_move (bullets w ! i)) (enemies w)")
  case (Pair b' es')
  have sw: "\<And>x. (bullets w)[Suc i := v, i := x] = (bullets w)[i := x, Suc i := v]"
    by (simp add: list_update_swap)
  from Pair show ?thesis using assms
    by (auto simp add: bullet_callback_def set_bullet_def Let_def sw splice1_update_next
          split: if_splits)
qed

lemma bullet_callback_length:
  "k < length (bullets w) \<Longrightarrow> k \<le> length (bullets (bullet_callback k w))"
  by (auto simp add: bullet_callback_def Let_def length_splice1 split: prod.split)

lemma powerUp_callback_set_before:
  "i < k \<Longrightarrow> powerUp_callback adj k (set_powerUp i v w) = set_powerUp i v (powerUp_callback adj k w)"
proof -
  assume "i < k"
  then have sw: "\<And>x. (powerUps w)[i := v, k := x] = (powerUps w)[k := x, i := v]"
    by (simp add: list_update_swap)
  show ?thesis using \<open>i < k\<close>
    by (simp add: powerUp_callback_def set_powerUp_def Let_def sw splice1_update_before)
qed

lemma powerUp_callback_set_next:
  assumes "Suc i < length (powerUps w)"
    and "length (powerUps (powerUp_callback adj i w)) < length (powerUps w)"
    and "y (player w) + height (player w) \<le> CANVAS_HEIGHT"
  shows "powerUp_callback adj i (set_powerUp (Suc i) v w)
           = set_powerUp i v (powerUp_callback adj i w)"
proof -
  have sw: "\<And>x. (powerUps w)[Suc i := v, i := x] = (powerUps w)[i := x, Suc i := v]"
    by (simp add: list_update_swap)
  show ?thesis using assms
    by (auto simp add: powerUp_callback_def set_powerUp_def Let_def sw splice1_update_next
          overlaps_def length_splice1 split: if_splits)
qed

lemma powerUp_callback_length:
  "k < length (powerUps w) \<Longrightarrow> k \<le> length (powerUps (powerUp_callback adj k w))"
  by (auto simp add: powerUp_callback_def Let_def length_splice1)

lemma forEach_invariant:
  assumes "\<And>k s. P s \<Longrightarrow> P (cb k s)" and "P s"
  shows "P (forEach len cb n k s)"
  using assms(2) by (induction n arbitrary: k s) (simp_all add: assms(1))

lemma enemy_callback_length_le:
  "length (enemies w) - 1 \<le> length (enemies (enemy_callback adj k w)) \<and>
   length (enemies (enemy_callback adj k w)) \<le> length (enemies w)"
  by (auto simp add: enemy_callback_def Let_def length_splice1 split: prod.split)

lemma bullet_callback_length_le:
  "length (bullets w) - 1 \<le> length (bullets (bullet_callback k w)) \<and>
   length (bullets (bullet_callback k w)) \<le> length (bullets w)"
  by (auto simp add: bullet_callback_def Let_def length_splice1 split: prod.split)

lemma powerUp_callback_length_le:
  "y (player w) + height (player w) \<le> CANVAS_HEIGHT \<Longrightarrow>
   length (powerUps w) - 1 \<le> length (powerUps (powerUp_callback adj k w))"
  by (auto simp add: powerUp_callback_def Let_def length_splice1 overlaps_def)

lemma set_fields [simp]:
  "length (enemies (set_enemy i e w)) = length (enemies w)"
  "length (bullets (set_bullet i b w)) = length (bullets w)"
  "length (powerUps (set_powerUp i pu w)) = length (powerUps w)"
  "player (set_powerUp i pu w) = player w"
  by (simp_all add: set_enemy_def set_bullet_def set_powerUp_def)

lemma set_self:
  "set_enemy i (enemies w ! i) w = w"
  "set_bullet i (bullets w ! i) w = w"
  "set_powerUp i (powerUps w ! i) w = w"
  by (simp_all add: set_enemy_def set_bullet_def set_powerUp_def)

lemma forEach_skip:
  fixes arr :: "'s \<Rightarrow> 'a list" and upd :: "nat \<Rightarrow> 'a \<Rightarrow> 's \<Rightarrow> 's"
  assumes before: "\<And>j k v s. j < k \<Longrightarrow> cb k (upd j v s) = upd j v (cb k s)"
    and arr_upd: "\<And>j v s. arr (upd j v s) = (arr s)[j := v]"
    and upd_self: "\<And>j s. upd j (arr s ! j) s = s"
    and len: "\<And>k s. k < length (arr s) \<Longrightarrow> k \<le> length (arr (cb k s))"
    and "next": "\<And>v. cb i (upd (Suc i) v w) = upd i v (cb i w)"
    and i: "i < length (arr w)" "i < length (arr (cb i w))"
  shows "forEach (\<lambda>s. length (arr s)) cb (Suc n) i (upd (Suc i) v w)
           = upd i v (forEach (\<lambda>s. length (arr s)) cb (Suc n) i w)"
    and "i < length (arr (forEach (\<lambda>s. length (arr s)) cb (Suc n) i w))"
    and "arr (forEach (\<lambda>s. length (arr s)) cb (Suc n) i w) ! i = arr w ! Suc i"
proof -
  let ?L = "\<lambda>s. length (arr s)"
  have 1: "forEach ?L cb (Suc n) i (upd (Suc i) v w) = upd i v (forEach ?L cb (Suc n) i w)" for v
    using i(1)
    by (simp add: arr_upd "next" before
          forEach_commute_from [where g = "upd i v" and ?k0.0 = "Suc i" and len = ?L])
  show "forEach ?L cb (Suc n) i (upd (Suc i) v w) = upd i v (forEach ?L cb (Suc n) i w)"
    by (rule 1)
  show 2: "i < length (arr (forEach ?L cb (Suc n) i w))"
    using i forEach_length_gt [where len = ?L and cb = cb and i = i and k = "Suc i"
        and s = "cb i w" and n = n] len
    by simp
  have "forEach ?L cb (Suc n) i w = upd i (arr w ! Suc i) (forEach ?L cb (Suc n) i w)"
    using 1 [of "arr w ! Suc i"] by (simp only: upd_self)
  then have "arr (forEach ?L cb (Suc n) i w) ! i
          = arr (upd i (arr w ! Suc i) (forEach ?L cb (Suc n) i w)) ! i"
    by simp
  then show "arr (forEach ?L cb (Suc n) i w) ! i = arr w ! Suc i"
    using 2 by (simp add: arr_upd)
qed

lemma arr_set:
  "enemies (set_enemy j e w) = (enemies w)[j := e]"
  "bullets (set_bullet j b w) = (bullets w)[j := b]"
  "powerUps (set_powerUp j pu w) = (powerUps w)[j := pu]"
  by (simp_all add: set_enemy_def set_bullet_def set_powerUp_def)

lemma enemies_skip:
  assumes "Suc i < length (enemies w)"
    and "length (enemies (enemy_callback adj i w)) < length (enemies w)"
  shows "enemies_visits adj (Suc n) i (set_enemy (Suc i) v w)
           = set_enemy i v (enemies_visits adj (Suc n) i w)"
    and "i < length (enemies (enemies_visits adj (Suc n) i w))"
    and "enemies (enemies_visits adj (Suc n) i w) ! i = enemies w ! Suc i"
proof -
  have i: "i < length (enemies w)" "i < length (enemies (enemy_callback adj i w))"
    using assms(1) enemy_callback_length_le [of w adj i] by linarith+
  note skip = forEach_skip [where arr = enemies and upd = set_enemy
      and cb = "enemy_callback adj" and i = i and w = w and n = n,
      OF enemy_callback_set_before arr_set(1) set_self(1) enemy_callback_length
         enemy_callback_set_next [OF assms] i, folded enemies_visits_def]
  show "enemies_visits adj (Suc n) i (set_enemy (Suc i) v w)
           = set_enemy i v (enemies_visits adj (Suc n) i w)"
    by (rule skip(1))
  show "i < length (enemies (enemies_visits adj (Suc n) i w))"
    by (rule skip(2))
  show "enemies (enemies_visits adj (Suc n) i w) ! i = enemies w ! Suc i"
    by (rule skip(3))
qed

lemma bullets_skip:
  assumes "Suc i < length (bullets w)"
    and "length (bullets (bullet_callback i w)) < length (bullets w)"
  shows "bullets_visits (Suc n) i (set_bullet (Suc i) v w)
           = set_bullet i v (bullets_visits (Suc n) i w)"
    and "i < length (bullets (bullets_visits (Suc n) i w))"
    and "bullets (bullets_visits (Suc n) i w) ! i = bullets w ! Suc i"
proof -
  have i: "i < length (bullets w)" "i < length (bullets (bullet_callback i w))"
    using assms(1) bullet_callback_length_le [of w i] by linarith+
  note skip = forEach_skip [where arr = bullets and upd = set_bullet
      and cb = bullet_callback and i = i and w = w and n = n,
      OF bullet_callback_set_before arr_set(2) set_self(2) bullet_callback_length
         bullet_callback_set_next [OF assms] i, folded bullets_visits_def]
  show "bullets_visits (Suc n) i (set_bullet (Suc i) v w)
           = set_bullet i v (bullets_visits (Suc n) i w)"
    by (rule skip(1))
  show "i < length (bullets (bullets_visits (Suc n) i w))"
    by (rule skip(2))
  show "bullets (bullets_visits (Suc n) i w) ! i = bullets w ! Suc i"
    by (rule skip(3))
qed

lemma powerUps_skip:
  assumes "Suc i < length (powerUps w)"
    and "length (powerUps (powerUp_callback adj i w)) < length (powerUps w)"
    and "y (player w) + height (player w) \<le> CANVAS_HEIGHT"
  shows "powerUps_visits adj (Suc n) i (set_powerUp (Suc i) v w)
           = set_powerUp i v (powerUps_visits adj (Suc n) i w)"
    and "i < length (powerUps (powerUps_visits adj (Suc n) i w))"
    and "powerUps (powerUps_visits adj (Suc n) i w) ! i = powerUps w ! Suc i"
proof -
  have i: "i < length (powerUps w)" "i < length (powerUps (powerUp_callback adj i w))"
    using assms(1) powerUp_callback_length_le [OF assms(3), of adj i] by linarith+
  note skip = forEach_skip [where arr = powerUps and upd = set_powerUp
      and cb = "powerUp_callback adj" and i = i and w = w and n = n,
      OF powerUp_callback_set_before arr_set(3) set_self(3) powerUp_callback_length
         powerUp_callback_set_next [OF assms] i, folded powerUps_visits_def]
  show "powerUps_visits adj (Suc n) i (set_powerUp (Suc i) v w)
           = set_powerUp i v (powerUps_visits adj (Suc n) i w)"
    by (rule skip(1))
  show "i < length (powerUps (powerUps_visits adj (Suc n) i w))"
    by (rule skip(2))
  show "powerUps (powerUps_visits adj (Suc n) i w) ! i = powerUps w ! Suc i"
    by (rule skip(3))
qed

lemma forEach_split_at:
  assumes "i < m"
  shows "forEach len cb m 0 s = forEach len cb (Suc (m - Suc i)) i (forEach len cb i 0 s)"
proof -
  have "m = i + Suc (m - Suc i)" using assms by simp
  then have "forEach len cb m 0 s = forEach len cb (i + Suc (m - Suc i)) 0 s"
    by (rule arg_cong)
  also have "\<dots> = forEach len cb (Suc (m - Suc i)) (0 + i) (forEach len cb i 0 s)"
    by (rule forEach_split)
  finally show ?thesis by (simp only: add_0)
qed

lemma loops_split:
  "i < length (enemies w) \<Longrightarrow>
     enemies_loop adj w
       = enemies_visits adj (Suc (length (enemies w) - Suc i)) i (enemies_visits adj i 0 w)"
  "i < length (bullets w) \<Longrightarrow>
     bullets_loop w = bullets_visits (Suc (length (bullets w) - Suc i)) i (bullets_visits i 0 w)"
  "i < length (powerUps w) \<Longrightarrow>
     powerUps_loop adj w
       = powerUps_visits adj (Suc (length (powerUps w) - Suc i)) i (powerUps_visits adj i 0 w)"
  unfolding enemies_loop_def enemies_visits_def bullets_loop_def bullets_visits_def
    powerUps_loop_def powerUps_visits_def
  by (rule forEach_split_at; assumption)+

lemma powerUp_callback_player_box:
  "x (player (powerUp_callback adj k w)) = x (player w)"
  "y (player (powerUp_callback adj k w)) = y (player w)"
  "width (player (powerUp_callback adj k w)) = width (player w)"
  "height (player (powerUp_callback adj k w)) = height (player w)"
  by (simp_all add: powerUp_callback_def Let_def)

lemma powerUps_visits_player_fits:
  assumes "y (player w) + height (player w) \<le> CANVAS_HEIGHT"
  shows "y (player (powerUps_visits adj n k w)) + height (player (powerUps_visits adj n k w))
           \<le> CANVAS_HEIGHT"
  unfolding powerUps_visits_def
  by (rule forEach_invariant [where P = "\<lambda>s. y (player s) + height (player s) \<le> CANVAS_HEIGHT"])
     (simp_all add: powerUp_callback_player_box assms)

text \<open>
  Claim C10. In each of the three loops, let the loop reach the index \<open>i\<close> (the state
  then is the one after the visits of the indices below \<open>i\<close>), let there be an entity
  at the index \<open>i + 1\<close>, and let the visit of \<open>i\<close> remove its entity. Then the entity
  that was at \<open>i + 1\<close> is at the index \<open>i\<close> when the loop ends, exactly as it was
  (not moved, its time of the last shot and its health unchanged, not removed even
  if it has no health left or is out of the playfield), and the rest of the state at
  the end of the loop is the same whatever that entity is: the player's health,
  score and buffs, the other entities and the bullets fired do not depend on it.
  For the power-ups the player is taken to be inside the playfield, as it is after
  the movement phase of the tick.
\<close>

theorem splice_skips_next:
  "(i < length (enemies we) \<and>
    Suc i < length (enemies (enemies_visits adj i 0 we)) \<and>
    length (enemies (enemy_callback adj i (enemies_visits adj i 0 we)))
      < length (enemies (enemies_visits adj i 0 we)) \<longrightarrow>
      i < length (enemies (enemies_loop adj we)) \<and>
      enemies (enemies_loop adj we) ! i = enemies (enemies_visits adj i 0 we) ! Suc i \<and>
      (\<forall>e. enemies_visits adj (length (enemies we) - i) i
              (set_enemy (Suc i) e (enemies_visits adj i 0 we))
            = set_enemy i e (enemies_loop adj we))) \<and>
   (i < length (bullets wb) \<and>
    Suc i < length (bullets (bullets_visits i 0 wb)) \<and>
    length (bullets (bullet_callback i (bullets_visits i 0 wb)))
      < length (bullets (bullets_visits i 0 wb)) \<longrightarrow>
      i < length (bullets (bullets_loop wb)) \<and>
      bullets (bullets_loop wb) ! i = bullets (bullets_visits i 0 wb) ! Suc i \<and>
      (\<forall>b. bullets_visits (length (bullets wb) - i) i
              (set_bullet (Suc i) b (bullets_visits i 0 wb))
            = set_bullet i b (bullets_loop wb))) \<and>
   (i < length (powerUps wp) \<and>
    y (player wp) + height (player wp) \<le> CANVAS_HEIGHT \<and>
    Suc i < length (powerUps (powerUps_visits adj i 0 wp)) \<and>
    length (powerUps (powerUp_callback adj i (powerUps_visits adj i 0 wp)))
      < length (powerUps (powerUps_visits adj i 0 wp)) \<longrightarrow>
      i < length (powerUps (powerUps_loop adj wp)) \<and>
      powerUps (powerUps_loop adj wp) ! i = powerUps (powerUps_visits adj i 0 wp) ! Suc i \<and>
      (\<forall>pu. powerUps_visits adj (length (powerUps wp) - i) i
              (set_powerUp (Suc i) pu (powerUps_visits adj i 0 wp))
            = set_powerUp i pu (powerUps_loop adj wp)))"
proof (intro conjI impI; elim conjE)
  assume i: "i < length (enemies we)"
    and n: "Suc i < length (enemies (enemies_visits adj i 0 we))"
    and r: "length (enemies (enemy_callback adj i (enemies_visits adj i 0 we)))
             < length (enemies (enemies_visits adj i 0 we))"
  have m: "length (enemies we) - i = Suc (length (enemies we) - Suc i)" using i by simp
  show "i < length (enemies (enemies_loop adj we))"
    unfolding loops_split(1) [OF i] by (rule enemies_skip(2) [OF n r])
  show "enemies (enemies_loop adj we) ! i = enemies (enemies_visits adj i 0 we) ! Suc i"
    unfolding loops_split(1) [OF i] by (rule enemies_skip(3) [OF n r])
  show "\<forall>e. enemies_visits adj (length (enemies we) - i) i
              (set_enemy (Suc i) e (enemies_visits adj i 0 we))
            = set_enemy i e (enemies_loop adj we)"
    unfolding loops_split(1) [OF i] m by (simp add: enemies_skip(1) [OF n r])
next
  assume i: "i < length (bullets wb)"
    and n: "Suc i < length (bullets (bullets_visits i 0 wb))"
    and r: "length (bullets (bullet_callback i (bullets_visits i 0 wb)))
             < length (bullets (bullets_visits i 0 wb))"
  have m: "length (bullets wb) - i = Suc (length (bullets wb) - Suc i)" using i by simp
  show "i < length (bullets (bullets_loop wb))"
    unfolding loops_split(2) [OF i] by (rule bullets_skip(2) [OF n r])
  show "bullets (bullets_loop wb) ! i = bullets (bullets_visits i 0 wb) ! Suc i"
    unfolding loops_split(2) [OF i] by (rule bullets_skip(3) [OF n r])
  show "\<forall>b. bullets_visits (length (bullets wb) - i) i
              (set_bullet (Suc i) b (bullets_visits i 0 wb))
            = set_bullet i b (bullets_loop wb)"
    unfolding loops_split(2) [OF i] m by (simp add: bullets_skip(1) [OF n r])
next
  assume i: "i < length (powerUps wp)"
    and p: "y (player wp) + height (player wp) \<le> CANVAS_HEIGHT"
    and n: "Suc i < length (powerUps (powerUps_visits adj i 0 wp))"
    and r: "length (powerUps (powerUp_callback adj i (powerUps_visits adj i 0 wp)))
             < length (powerUps (powerUps_visits adj i 0 wp))"
  have m: "length (powerUps wp) - i = Suc (length (powerUps wp) - Suc i)" using i by simp
  note f = powerUps_visits_player_fits [OF p, of adj i 0]
  show "i < length (powerUps (powerUps_loop adj wp))"
    unfolding loops_split(3) [OF i] by (rule powerUps_skip(2) [OF n r f])
  show "powerUps (powerUps_loop adj wp) ! i = powerUps (powerUps_visits adj i 0 wp) ! Suc i"
    unfolding loops_split(3) [OF i] by (rule powerUps_skip(3) [OF n r f])
  show "\<forall>pu. powerUps_visits adj (length (powerUps wp) - i) i
              (set_powerUp (Suc i) pu (powerUps_visits adj i 0 wp))
            = set_powerUp i pu (powerUps_loop adj wp)"
    unfolding loops_split(3) [OF i] m by (simp add: powerUps_skip(1) [OF n r f])
qed

lemma skip_enemies_first:
  "enemies (enemy_callback 0 0 skip_enemies_world) = [enemies skip_enemies_world ! 1]"
  by (simp add: skip_enemies_world_def initial_world_def enemy_callback_def enemy_act_def
        overlaps_def standard_player_def CANVAS_HEIGHT_def splice1_def Let_def)

lemma skip_bullets_first:
  "bullets (bullet_callback 0 skip_bullets_world) = [bullets skip_bullets_world ! 1]"
  by (simp add: skip_bullets_world_def initial_world_def bullet_callback_def bullet_move_def
        bullet_out_def CANVAS_HEIGHT_def CANVAS_WIDTH_def splice1_def js_gt_def Let_def)

lemma skip_powerUps_first:
  "powerUps (powerUp_callback 0 0 skip_powerUps_world) = [powerUps skip_powerUps_world ! 1]"
  by (simp add: skip_powerUps_world_def initial_world_def powerUp_callback_def
        overlaps_def standard_player_def CANVAS_HEIGHT_def splice1_def Let_def)

theorem splice_skips_next_witness:
  "(0 < length (enemies skip_enemies_world) \<and>
    Suc 0 < length (enemies (enemies_visits 0 0 0 skip_enemies_world)) \<and>
    length (enemies (enemy_callback 0 0 (enemies_visits 0 0 0 skip_enemies_world)))
      < length (enemies (enemies_visits 0 0 0 skip_enemies_world)) \<and>
    ehealth (enemies skip_enemies_world ! 1) \<le> 0 \<and>
    enemies (enemies_loop 0 skip_enemies_world) ! 0 = enemies skip_enemies_world ! 1) \<and>
   (0 < length (bullets skip_bullets_world) \<and>
    Suc 0 < length (bullets (bullets_visits 0 0 skip_bullets_world)) \<and>
    length (bullets (bullet_callback 0 (bullets_visits 0 0 skip_bullets_world)))
      < length (bullets (bullets_visits 0 0 skip_bullets_world)) \<and>
    bullet_overlaps (bullets skip_bullets_world ! 1) (player skip_bullets_world) \<and>
    bullets (bullets_loop skip_bullets_world) ! 0 = bullets skip_bullets_world ! 1) \<and>
   (0 < length (powerUps skip_powerUps_world) \<and>
    y (player skip_powerUps_world) + height (player skip_powerUps_world) \<le> CANVAS_HEIGHT \<and>
    Suc 0 < length (powerUps (powerUps_visits 0 0 0 skip_powerUps_world)) \<and>
    length (powerUps (powerUp_callback 0 0 (powerUps_visits 0 0 0 skip_powerUps_world)))
      < length (powerUps (powerUps_visits 0 0 0 skip_powerUps_world)) \<and>
    y (powerUps skip_powerUps_world ! 1) > CANVAS_HEIGHT \<and>
    powerUps (powerUps_loop 0 skip_powerUps_world) ! 0 = powerUps skip_powerUps_world ! 1)"
proof -
  have v: "enemies_visits 0 0 0 skip_enemies_world = skip_enemies_world"
    "bullets_visits 0 0 skip_bullets_world = skip_bullets_world"
    "powerUps_visits 0 0 0 skip_powerUps_world = skip_powerUps_world"
    by (simp_all add: enemies_visits_def bullets_visits_def powerUps_visits_def)
  have l: "length (enemies skip_enemies_world) = 2" "length (bullets skip_bullets_world) = 2"
    "length (powerUps skip_powerUps_world) = 2"
    by (simp_all add: skip_enemies_world_def skip_bullets_world_def skip_powerUps_world_def)
  have e: "ehealth (enemies skip_enemies_world ! 1) \<le> 0"
    "bullet_overlaps (bullets skip_bullets_world ! 1) (player skip_bullets_world)"
    "y (powerUps skip_powerUps_world ! 1) > CANVAS_HEIGHT"
    "y (player skip_powerUps_world) + height (player skip_powerUps_world) \<le> CANVAS_HEIGHT"
    by (simp_all add: skip_enemies_world_def skip_bullets_world_def skip_powerUps_world_def
          initial_world_def standard_player_def bullet_overlaps_def js_gt_def CANVAS_HEIGHT_def)
  show ?thesis
    using splice_skips_next [where i = 0 and adj = 0 and we = skip_enemies_world
        and wb = skip_bullets_world and wp = skip_powerUps_world] e
    by (simp add: v l skip_enemies_first skip_bullets_first skip_powerUps_first)
qed

section \<open>The score\<close>

text \<open>The last tick, stage by stage: nothing happens before the loop over the enemies.\<close>

lemma last_tick_before_loops:
  "powerUps_loop 1000
     (update_buffs 1000
       (spawnBoss 1000
         (spawnPowerUp 1000 0 0
           (spawnEnemy 1000 0 0
             (shoot 1000 (\<lambda>c. False)
               (last_tick_world
                  \<lparr>player := move_player (\<lambda>c. False) (player last_tick_world)\<rparr>))))))
   = last_tick_world"
  by (simp add: last_tick_world_def initial_world_def standard_player_def move_player_def
        move_left_def move_right_def move_up_def move_down_def clamp_bounds_def
        CANVAS_WIDTH_def CANVAS_HEIGHT_def shoot_def hasBuff_def spawnEnemy_def bossActive_def
        spawnPowerUp_def spawnBoss_def update_buffs_def powerUps_loop_def powerUps_visits_def
        Let_def)

lemma last_tick_enemies:
  "enemies_loop 1000 last_tick_world
     = last_tick_world\<lparr>enemies := [(enemies last_tick_world ! 0)\<lparr>y := 101\<rparr>]\<rparr>"
  by (simp add: last_tick_world_def initial_world_def standard_player_def enemies_loop_def
        enemies_visits_def enemy_callback_def enemy_act_def overlaps_def hasBuff_def
        CANVAS_HEIGHT_def Let_def)

lemma last_tick_bullets:
  "bullets_loop
     (last_tick_world\<lparr>enemies := [(enemies last_tick_world ! 0)\<lparr>y := 101\<rparr>]\<rparr>)
   = after_last_tick\<lparr>gameState := menu_state\<lparr>status := playing\<rparr>,
                      captured := menu_state\<lparr>status := playing\<rparr>\<rparr>"
  by (simp add: last_tick_world_def after_last_tick_def initial_world_def standard_player_def
        bullets_loop_def bullets_visits_def bullet_callback_def bullet_move_def
        bullet_overlaps_def bullet_out_def js_gt_def hasBuff_def splice1_def
        CANVAS_HEIGHT_def CANVAS_WIDTH_def Let_def)

lemma last_tick_update:
  "update (frame_at 1000) last_tick_world = after_last_tick"
proof -
  have k: "keys (frame_at 1000) = (\<lambda>c. False)"
    "rnd_etype (frame_at 1000) = 0" "rnd_ex (frame_at 1000) = 0"
    "rnd_putype (frame_at 1000) = 0" "rnd_pux (frame_at 1000) = 0"
    by (simp_all add: frame_at_def)
  have a: "adjustedTimestamp (frame_at 1000) last_tick_world = 1000"
    "status (captured last_tick_world) = playing"
    by (simp_all add: adjustedTimestamp_def frame_at_def last_tick_world_def initial_world_def
          menu_state_def)
  have "simulate 1000 (frame_at 1000) last_tick_world
      = after_last_tick\<lparr>gameState := menu_state\<lparr>status := playing\<rparr>,
                         captured := menu_state\<lparr>status := playing\<rparr>\<rparr>"
    by (simp add: simulate_def Let_def k last_tick_before_loops last_tick_enemies
          last_tick_bullets)
  then show ?thesis
    by (simp add: update_def a tick_def check_game_over_def after_last_tick_def
          standard_player_def initial_world_def menu_state_def setGameState_def Let_def)
qed

text \<open>Once the run is over, a frame changes nothing.\<close>

lemma update_gameover:
  "status (captured w) = gameover \<Longrightarrow> update f w = w"
  by (simp add: update_def)

text \<open>
  Claim C8 asks that every enemy whose health reaches 0 or less adds its award to the
  score exactly once over the whole run. The award is made at the visit of the enemy
  loop that removes the enemy, and a bullet takes the enemy's health after that loop.
  In the last tick of a run the enemy that the player's bullet kills stays in the
  collection with no health; the run ends in the same tick, the later frames change
  nothing, and the score never receives the award.
\<close>

theorem unawarded_kill_counterexample:
  "status (gameState last_tick_world) = playing \<and>
   0 < ehealth (enemies last_tick_world ! 0) \<and>
   ehealth (enemies (update (frame_at 1000) last_tick_world) ! 0) \<le> 0 \<and>
   score (player (update (frame_at 1000) last_tick_world)) = score (player last_tick_world) \<and>
   status (gameState (update (frame_at 1000) last_tick_world)) = gameover \<and>
   gs_score (gameState (update (frame_at 1000) last_tick_world)) = 0 \<and>
   update (frame_at 1016) (update (frame_at 1000) last_tick_world)
     = update (frame_at 1000) last_tick_world"
proof -
  have g: "status (captured after_last_tick) = gameover"
    by (simp add: after_last_tick_def initial_world_def menu_state_def)
  have "update (frame_at 1016) after_last_tick = after_last_tick"
    by (rule update_gameover [OF g])
  then show ?thesis
    unfolding last_tick_update
    by (simp add: after_last_tick_def last_tick_world_def initial_world_def menu_state_def
          standard_player_def)
qed

lemma enemy_act_etype:
  "etype (fst (enemy_act adj p e)) = etype e"
  by (simp add: enemy_act_def Let_def)

lemma splice1_update_same:
  "splice1 i (xs[i := v]) = splice1 i xs"
  by (simp add: splice1_def)

lemma forEach_preserves:
  assumes "\<And>k s. F (cb k s) = F s"
  shows "F (forEach len cb n k s) = F s"
  by (induction n arbitrary: k s) (simp_all add: assms)

lemma score_bullet_callback:
  "score (player (bullet_callback k w)) = score (player w)"
  by (simp add: bullet_callback_def Let_def split: prod.split)

lemma score_powerUp_callback:
  "score (player (powerUp_callback adj k w)) = score (player w)"
  by (simp add: powerUp_callback_def Let_def)

lemma score_other_stages:
  "score (player (bullets_loop w)) = score (player w)"
  "score (player (powerUps_loop adj w)) = score (player w)"
  "score (player (check_game_over w)) = score (player w)"
  "score (player (update_buffs adj w)) = score (player w)"
  "score (player (spawnBoss adj w)) = score (player w)"
  "score (player (spawnPowerUp adj r1 r2 w)) = score (player w)"
  "score (player (spawnEnemy adj r1 r2 w)) = score (player w)"
  "score (player (shoot adj ks w)) = score (player w)"
  "score (move_player ks p) = score p"
proof -
  show "score (player (bullets_loop w)) = score (player w)"
    unfolding bullets_loop_def bullets_visits_def
    by (rule forEach_preserves [where F = "\<lambda>s. score (player s)"]) (rule score_bullet_callback)
  show "score (player (powerUps_loop adj w)) = score (player w)"
    unfolding powerUps_loop_def powerUps_visits_def
    by (rule forEach_preserves [where F = "\<lambda>s. score (player s)"]) (rule score_powerUp_callback)
qed (simp_all add: check_game_over_def update_buffs_def spawnBoss_def spawnPowerUp_def
      spawnEnemy_def shoot_def move_player_def clamp_bounds_def move_left_def move_right_def
      move_up_def move_down_def Let_def)

lemma enemy_act_ehealth:
  "ehealth (fst (enemy_act adj p e)) = ehealth e"
  by (simp add: enemy_act_def Let_def)

text \<open>
  Claim C8, amended. The score changes at one place only: the visit of the enemy loop
  to an enemy that is without health or that, after its move, is in contact with the
  player (the contact sets its health to 0). That visit adds 5000 for a boss, 500 for a
  heavy enemy and 100 for a basic or a fast enemy, and removes the enemy from the
  collection in the same step, so that no enemy is awarded twice, however many ticks
  it stays without health in the collection before that visit. The visit to an enemy
  that keeps some health adds nothing, also when it removes the enemy for leaving the
  playfield southward. Every other stage of the tick leaves the score as it is: the
  movement of the player, the shooting, the three spawners, the expiry of the buffs,
  the loops over the power-ups and the bullets and the test for the end of the run.
\<close>

theorem score_awarded_at_removal:
  assumes "index < length (enemies w)"
  shows "(overlaps (player w) (fst (enemy_act adj (player w) (enemies w ! index))) \<or>
          ehealth (enemies w ! index) \<le> 0 \<longrightarrow>
            (etype (enemies w ! index) = boss \<longrightarrow>
               score (player (enemy_callback adj index w)) = score (player w) + 5000) \<and>
            (etype (enemies w ! index) = heavy \<longrightarrow>
               score (player (enemy_callback adj index w)) = score (player w) + 500) \<and>
            (etype (enemies w ! index) = basic \<or> etype (enemies w ! index) = fast \<longrightarrow>
               score (player (enemy_callback adj index w)) = score (player w) + 100) \<and>
            enemies (enemy_callback adj index w) = splice1 index (enemies w) \<and>
            length (enemies (enemy_callback adj index w)) = length (enemies w) - 1) \<and>
         (\<not> overlaps (player w) (fst (enemy_act adj (player w) (enemies w ! index))) \<and>
          0 < ehealth (enemies w ! index) \<longrightarrow>
            score (player (enemy_callback adj index w)) = score (player w)) \<and>
         score (move_player ks (player w)) = score (player w) \<and>
         score (player (shoot adj ks w)) = score (player w) \<and>
         score (player (spawnEnemy adj r1 r2 w)) = score (player w) \<and>
         score (player (spawnPowerUp adj r1 r2 w)) = score (player w) \<and>
         score (player (spawnBoss adj w)) = score (player w) \<and>
         score (player (update_buffs adj w)) = score (player w) \<and>
         score (player (powerUps_loop adj w)) = score (player w) \<and>
         score (player (bullets_loop w)) = score (player w) \<and>
         score (player (check_game_over w)) = score (player w)"
proof -
  obtain e1 new where a: "enemy_act adj (player w) (enemies w ! index) = (e1, new)"
    by (cases "enemy_act adj (player w) (enemies w ! index)")
  have t: "etype e1 = etype (enemies w ! index)"
    using enemy_act_etype [of adj "player w" "enemies w ! index"] a by simp
  have h: "ehealth e1 = ehealth (enemies w ! index)"
    using enemy_act_ehealth [of adj "player w" "enemies w ! index"] a by simp
  show ?thesis
    using assms t h
    by (simp add: enemy_callback_def a Let_def splice1_update_same length_splice1
          score_other_stages award_def)
qed

lemma defeated_acts:
  "fst (enemy_act 0 (player defeated_world) (enemies defeated_world ! 0))
     = (enemies defeated_world ! 0)"
  "fst (enemy_act 0 (player defeated_world) (enemies defeated_world ! 1))
     = (enemies defeated_world ! 1)\<lparr>y := 100.6\<rparr>"
  "fst (enemy_act 0 (player defeated_world) (enemies defeated_world ! 2))
     = (enemies defeated_world ! 2)\<lparr>y := 101\<rparr>"
  "fst (enemy_act 0 (player defeated_world) (enemies defeated_world ! 3))
     = (enemies defeated_world ! 3)\<lparr>y := 551.5\<rparr>"
  "fst (enemy_act 0 (player defeated_world) (enemies defeated_world ! 4))
     = (enemies defeated_world ! 4)\<lparr>y := 641\<rparr>"
  by (simp_all add: defeated_world_def a_boss_def enemy_act_def CANVAS_WIDTH_def Let_def)

theorem score_awarded_at_removal_witness:
  "score (player defeated_world) = 0 \<and>
   length (enemies defeated_world) = 5 \<and>
   etype (enemies defeated_world ! 0) = boss \<and> ehealth (enemies defeated_world ! 0) \<le> 0 \<and>
   score (player (enemy_callback 0 0 defeated_world)) = 5000 \<and>
   etype (enemies defeated_world ! 1) = heavy \<and> ehealth (enemies defeated_world ! 1) \<le> 0 \<and>
   score (player (enemy_callback 0 1 defeated_world)) = 500 \<and>
   etype (enemies defeated_world ! 2) = basic \<and> ehealth (enemies defeated_world ! 2) \<le> 0 \<and>
   score (player (enemy_callback 0 2 defeated_world)) = 100 \<and>
   etype (enemies defeated_world ! 3) = fast \<and> 0 < ehealth (enemies defeated_world ! 3) \<and>
   overlaps (player defeated_world)
     (fst (enemy_act 0 (player defeated_world) (enemies defeated_world ! 3))) \<and>
   score (player (enemy_callback 0 3 defeated_world)) = 100 \<and>
   length (enemies (enemy_callback 0 3 defeated_world)) = 4 \<and>
   0 < ehealth (enemies defeated_world ! 4) \<and>
   \<not> overlaps (player defeated_world)
       (fst (enemy_act 0 (player defeated_world) (enemies defeated_world ! 4))) \<and>
   CANVAS_HEIGHT < y (fst (enemy_act 0 (player defeated_world) (enemies defeated_world ! 4))) \<and>
   score (player (enemy_callback 0 4 defeated_world)) = 0"
proof -
  have l: "0 < length (enemies defeated_world)" "1 < length (enemies defeated_world)"
    "2 < length (enemies defeated_world)" "3 < length (enemies defeated_world)"
    "4 < length (enemies defeated_world)"
    by (simp_all add: defeated_world_def)
  have v: "score (player defeated_world) = 0" "length (enemies defeated_world) = 5"
    "etype (enemies defeated_world ! 0) = boss" "ehealth (enemies defeated_world ! 0) \<le> 0"
    "etype (enemies defeated_world ! 1) = heavy" "ehealth (enemies defeated_world ! 1) \<le> 0"
    "etype (enemies defeated_world ! 2) = basic" "ehealth (enemies defeated_world ! 2) \<le> 0"
    "etype (enemies defeated_world ! 3) = fast" "0 < ehealth (enemies defeated_world ! 3)"
    "0 < ehealth (enemies defeated_world ! 4)"
    by (simp_all add: defeated_world_def initial_world_def standard_player_def a_boss_def)
  have f: "overlaps (player defeated_world)
             (fst (enemy_act 0 (player defeated_world) (enemies defeated_world ! 3)))"
    "\<not> overlaps (player defeated_world)
        (fst (enemy_act 0 (player defeated_world) (enemies defeated_world ! 4)))"
    "CANVAS_HEIGHT < y (fst (enemy_act 0 (player defeated_world) (enemies defeated_world ! 4)))"
    unfolding defeated_acts
    by (simp_all add: defeated_world_def initial_world_def standard_player_def overlaps_def
          CANVAS_HEIGHT_def)
  show ?thesis
    using score_awarded_at_removal [OF l(1), of 0 "\<lambda>c. False" 0 0] score_awarded_at_removal [OF l(2), of 0 "\<lambda>c. False" 0 0]
      score_awarded_at_removal [OF l(3), of 0 "\<lambda>c. False" 0 0] score_awarded_at_removal [OF l(4), of 0 "\<lambda>c. False" 0 0]
      score_awarded_at_removal [OF l(5), of 0 "\<lambda>c. False" 0 0] v f
    by (simp add: length_splice1)
qed

section \<open>The buffs\<close>

lemma set_first_endTime_types [simp]:
  "map btype (set_first_endTime t e bs) = map btype bs"
  by (induction bs) simp_all

lemma set_first_endTime_length [simp]:
  "length (set_first_endTime t e bs) = length bs"
  by (induction bs) simp_all

lemma find_set_first_endTime:
  "find (\<lambda>b. btype b = t) (set_first_endTime t e bs)
     = map_option (\<lambda>b. b\<lparr>endTime := e\<rparr>) (find (\<lambda>b. btype b = t) bs)"
  by (induction bs) simp_all

lemma set_first_endTime_bound:
  "list_all (\<lambda>b. endTime b \<le> m) bs \<Longrightarrow> e \<le> m \<Longrightarrow>
   list_all (\<lambda>b. endTime b \<le> m) (set_first_endTime t e bs)"
  by (induction bs) simp_all

lemma find_None_types:
  "find (\<lambda>b. btype b = t) bs = None \<longleftrightarrow> t \<notin> set (map btype bs)"
  by (induction bs) auto

lemma buffs_ok_mono:
  "buffs_ok t0 p \<Longrightarrow> t0 \<le> t \<Longrightarrow> buffs_ok t p"
  by (auto simp add: buffs_ok_def list_all_iff)

lemma apply_buff_ok:
  assumes "distinct (map btype bs)" and "list_all (\<lambda>b. endTime b \<le> adj + 10000) bs"
  shows "distinct (map btype (apply_buff t adj bs)) \<and>
         list_all (\<lambda>b. endTime b \<le> adj + 10000) (apply_buff t adj bs)"
  using assms
  by (auto simp add: apply_buff_def set_first_endTime_bound find_None_types
        split: option.split)

lemma apply_buff_active:
  assumes "find (\<lambda>b. btype b = t) bs = Some old"
  shows "apply_buff t adj bs = set_first_endTime t (adj + 10000) bs"
    and "find (\<lambda>b. btype b = t) (apply_buff t adj bs) = Some (old\<lparr>endTime := adj + 10000\<rparr>)"
  using assms by (simp_all add: apply_buff_def find_set_first_endTime)

lemma buffs_ok_powerUp_callback:
  assumes "buffs_ok adj (player w)"
  shows "buffs_ok adj (player (powerUp_callback adj k w))"
  using assms apply_buff_ok [of "activeBuffs (player w)" adj]
  by (simp add: powerUp_callback_def Let_def buffs_ok_def)

lemma activeBuffs_enemy_callback:
  "activeBuffs (player (enemy_callback adj k w)) = activeBuffs (player w)"
  by (simp add: enemy_callback_def Let_def split: prod.split)

lemma activeBuffs_bullet_callback:
  "activeBuffs (player (bullet_callback k w)) = activeBuffs (player w)"
  by (simp add: bullet_callback_def Let_def split: prod.split)

lemma activeBuffs_stages:
  "activeBuffs (player (enemies_loop adj w)) = activeBuffs (player w)"
  "activeBuffs (player (bullets_loop w)) = activeBuffs (player w)"
  "activeBuffs (player (check_game_over w)) = activeBuffs (player w)"
  "activeBuffs (player (spawnBoss adj w)) = activeBuffs (player w)"
  "activeBuffs (player (spawnPowerUp adj r1 r2 w)) = activeBuffs (player w)"
  "activeBuffs (player (spawnEnemy adj r1 r2 w)) = activeBuffs (player w)"
  "activeBuffs (player (shoot adj ks w)) = activeBuffs (player w)"
  "activeBuffs (move_player ks p) = activeBuffs p"
proof -
  show "activeBuffs (player (enemies_loop adj w)) = activeBuffs (player w)"
    unfolding enemies_loop_def enemies_visits_def
    by (rule forEach_preserves [where F = "\<lambda>s. activeBuffs (player s)"])
       (rule activeBuffs_enemy_callback)
  show "activeBuffs (player (bullets_loop w)) = activeBuffs (player w)"
    unfolding bullets_loop_def bullets_visits_def
    by (rule forEach_preserves [where F = "\<lambda>s. activeBuffs (player s)"])
       (rule activeBuffs_bullet_callback)
qed (simp_all add: check_game_over_def spawnBoss_def spawnPowerUp_def
      spawnEnemy_def shoot_def move_player_def clamp_bounds_def move_left_def move_right_def
      move_up_def move_down_def Let_def)

lemma buffs_ok_update_buffs:
  "buffs_ok t (player w) \<Longrightarrow> buffs_ok t (player (update_buffs adj w))"
  by (auto simp add: update_buffs_def buffs_ok_def distinct_map_filter list_all_iff)

lemma buffs_ok_powerUps_loop:
  "buffs_ok adj (player w) \<Longrightarrow> buffs_ok adj (player (powerUps_loop adj w))"
  unfolding powerUps_loop_def powerUps_visits_def
  by (rule forEach_invariant [where P = "\<lambda>s. buffs_ok adj (player s)"])
     (simp_all add: buffs_ok_powerUp_callback)

lemma buffs_ok_cong:
  "activeBuffs p = activeBuffs q \<Longrightarrow> buffs_ok t p = buffs_ok t q"
  by (simp add: buffs_ok_def)

lemma buffs_ok_tick:
  assumes "buffs_ok t0 (player w)" and "t0 \<le> adj"
  shows "buffs_ok adj (player (tick adj f w))"
proof -
  let ?w5 = "spawnBoss adj (spawnPowerUp adj (rnd_putype f) (rnd_pux f)
               (spawnEnemy adj (rnd_etype f) (rnd_ex f)
                 (shoot adj (keys f) (w\<lparr>player := move_player (keys f) (player w)\<rparr>))))"
  have "activeBuffs (player ?w5) = activeBuffs (player w)"
    by (simp add: activeBuffs_stages)
  then have "buffs_ok adj (player ?w5)"
    using buffs_ok_mono [OF assms] buffs_ok_cong by blast
  then have "buffs_ok adj (player (powerUps_loop adj (update_buffs adj ?w5)))"
    by (intro buffs_ok_powerUps_loop buffs_ok_update_buffs)
  moreover have "activeBuffs (player (tick adj f w))
      = activeBuffs (player (powerUps_loop adj (update_buffs adj ?w5)))"
    by (simp add: tick_def simulate_def Let_def activeBuffs_stages)
  ultimately show ?thesis using buffs_ok_cong by blast
qed

lemma resetGame_activeBuffs:
  "activeBuffs (player (resetGame now w)) = []"
  by (simp add: resetGame_def Let_def)

lemma powerUp_callback_hit:
  assumes "overlaps (player w)
             ((powerUps w ! index)\<lparr>y := y (powerUps w ! index) + speed (powerUps w ! index)\<rparr>)"
  shows "activeBuffs (player (powerUp_callback adj index w))
      = apply_buff (putype (powerUps w ! index)) adj (activeBuffs (player w))"
  using assms by (simp add: powerUp_callback_def Let_def)

lemma find_set_first_endTime_other:
  "t' \<noteq> t \<Longrightarrow>
   find (\<lambda>b. btype b = t') (set_first_endTime t e bs) = find (\<lambda>b. btype b = t') bs"
  by (induction bs) simp_all

lemma find_snoc:
  "find P (xs @ [v]) = (case find P xs of None \<Rightarrow> (if P v then Some v else None) | Some u \<Rightarrow> Some u)"
  by (induction xs) simp_all

lemma find_apply_buff_other:
  "t' \<noteq> t \<Longrightarrow>
   find (\<lambda>b. btype b = t') (apply_buff t adj bs) = find (\<lambda>b. btype b = t') bs"
  by (simp add: apply_buff_def find_set_first_endTime_other find_snoc
        split: option.split)

lemma find_apply_buff_same:
  "map_option endTime (find (\<lambda>b. btype b = t) (apply_buff t adj bs)) = Some (adj + 10000)"
  by (simp add: apply_buff_def find_set_first_endTime find_snoc split: option.split)

lemma powerUp_callback_miss:
  assumes "\<not> overlaps (player w)
             ((powerUps w ! index)\<lparr>y := y (powerUps w ! index) + speed (powerUps w ! index)\<rparr>)"
  shows "activeBuffs (player (powerUp_callback adj index w)) = activeBuffs (player w)"
  using assms by (simp add: powerUp_callback_def Let_def)

text \<open>
  During the loop over the power-ups, the buff of every type is either the one that
  it was when the loop began or one whose expiry an earlier visit has set to
  \<open>adj + 10000\<close>.
\<close>

lemma powerUp_callback_touched:
  assumes "find (\<lambda>b. btype b = t) (activeBuffs (player s)) = find (\<lambda>b. btype b = t) bs0 \<or>
           map_option endTime (find (\<lambda>b. btype b = t) (activeBuffs (player s)))
             = Some (adj + 10000)"
  shows "find (\<lambda>b. btype b = t) (activeBuffs (player (powerUp_callback adj k s)))
           = find (\<lambda>b. btype b = t) bs0 \<or>
         map_option endTime (find (\<lambda>b. btype b = t) (activeBuffs (player (powerUp_callback adj k s))))
           = Some (adj + 10000)"
proof (cases "overlaps (player s) ((powerUps s ! k)\<lparr>y := y (powerUps s ! k) + speed (powerUps s ! k)\<rparr>)")
  case True
  note ab = powerUp_callback_hit [OF True, of adj]
  show ?thesis
  proof (cases "t = putype (powerUps s ! k)")
    case True
    then show ?thesis by (simp add: ab find_apply_buff_same)
  next
    case False
    then show ?thesis using assms by (simp add: ab find_apply_buff_other)
  qed
next
  case False
  then show ?thesis using assms by (simp add: powerUp_callback_miss)
qed

lemma powerUps_visits_touched:
  "find (\<lambda>b. btype b = t) (activeBuffs (player (powerUps_visits adj n k w)))
     = find (\<lambda>b. btype b = t) (activeBuffs (player w)) \<or>
   map_option endTime (find (\<lambda>b. btype b = t) (activeBuffs (player (powerUps_visits adj n k w))))
     = Some (adj + 10000)"
  unfolding powerUps_visits_def
  by (rule forEach_invariant
        [where P = "\<lambda>s. find (\<lambda>b. btype b = t) (activeBuffs (player s))
                           = find (\<lambda>b. btype b = t) (activeBuffs (player w)) \<or>
                         map_option endTime (find (\<lambda>b. btype b = t) (activeBuffs (player s)))
                           = Some (adj + 10000)"],
      erule powerUp_callback_touched, simp)

lemma buffs_ok_powerUps_visits:
  "buffs_ok adj (player w) \<Longrightarrow> buffs_ok adj (player (powerUps_visits adj n k w))"
  unfolding powerUps_visits_def
  by (rule forEach_invariant [where P = "\<lambda>s. buffs_ok adj (player s)"])
     (simp_all add: buffs_ok_powerUp_callback)

lemma buffs_ok_before_powerUps:
  assumes "buffs_ok t0 (player w)"
  shows "buffs_ok t0 (player (update_buffs adj
           (spawnBoss adj (spawnPowerUp adj r1 r2 (spawnEnemy adj r3 r4
              (shoot adj ks (w\<lparr>player := move_player ks (player w)\<rparr>)))))))"
proof -
  let ?w5 = "spawnBoss adj (spawnPowerUp adj r1 r2 (spawnEnemy adj r3 r4
               (shoot adj ks (w\<lparr>player := move_player ks (player w)\<rparr>))))"
  have "activeBuffs (player ?w5) = activeBuffs (player w)"
    by (simp add: activeBuffs_stages)
  then have "buffs_ok t0 (player ?w5)"
    using assms buffs_ok_cong by blast
  then show ?thesis by (rule buffs_ok_update_buffs)
qed

lemma buffs_ok_find_bound:
  assumes "buffs_ok t0 p" and "find (\<lambda>b. btype b = t) (activeBuffs p) = Some old"
  shows "endTime old \<le> t0 + 10000"
proof -
  have "old \<in> set (activeBuffs p)"
    using assms(2) by (auto simp add: find_Some_iff)
  then show ?thesis
    using assms(1) by (auto simp add: buffs_ok_def list_all_iff)
qed

lemma pickup_refreshes_active_buff:
  assumes ok: "buffs_ok t0 (player w)" and lt: "t0 < adj"
    and w': "w' = powerUps_visits adj index 0 w"
    and hit: "overlaps (player w')
               ((powerUps w' ! index)\<lparr>y := y (powerUps w' ! index) + speed (powerUps w' ! index)\<rparr>)"
    and old: "find (\<lambda>b. btype b = putype (powerUps w' ! index)) (activeBuffs (player w'))
                = Some old"
  shows "find (\<lambda>b. btype b = putype (powerUps w' ! index))
           (activeBuffs (player (powerUp_callback adj index w')))
           = Some (old\<lparr>endTime := adj + 10000\<rparr>)"
    and "map btype (activeBuffs (player (powerUp_callback adj index w')))
           = map btype (activeBuffs (player w'))"
    and "\<forall>t'. t' \<noteq> putype (powerUps w' ! index) \<longrightarrow>
           find (\<lambda>b. btype b = t') (activeBuffs (player (powerUp_callback adj index w')))
             = find (\<lambda>b. btype b = t') (activeBuffs (player w'))"
    and "endTime old \<le> adj + 10000"
    and "find (\<lambda>b. btype b = putype (powerUps w' ! index)) (activeBuffs (player w'))
           = find (\<lambda>b. btype b = putype (powerUps w' ! index)) (activeBuffs (player w)) \<longrightarrow>
         endTime old < adj + 10000"
    and "find (\<lambda>b. btype b = putype (powerUps w' ! index)) (activeBuffs (player w'))
           \<noteq> find (\<lambda>b. btype b = putype (powerUps w' ! index)) (activeBuffs (player w)) \<longrightarrow>
         endTime old = adj + 10000"
proof -
  let ?t = "putype (powerUps w' ! index)"
  note ab = powerUp_callback_hit [OF hit, of adj]
  show "find (\<lambda>b. btype b = ?t) (activeBuffs (player (powerUp_callback adj index w')))
           = Some (old\<lparr>endTime := adj + 10000\<rparr>)"
    by (simp add: ab apply_buff_active(2) [OF old])
  show "map btype (activeBuffs (player (powerUp_callback adj index w')))
           = map btype (activeBuffs (player w'))"
    by (simp add: ab apply_buff_active(1) [OF old])
  show "\<forall>t'. t' \<noteq> ?t \<longrightarrow>
           find (\<lambda>b. btype b = t') (activeBuffs (player (powerUp_callback adj index w')))
             = find (\<lambda>b. btype b = t') (activeBuffs (player w'))"
    by (simp add: ab find_apply_buff_other)
  have same: "find (\<lambda>b. btype b = ?t) (activeBuffs (player w'))
                = find (\<lambda>b. btype b = ?t) (activeBuffs (player w)) \<Longrightarrow>
              endTime old < adj + 10000"
  proof -
    assume "find (\<lambda>b. btype b = ?t) (activeBuffs (player w'))
              = find (\<lambda>b. btype b = ?t) (activeBuffs (player w))"
    then have "find (\<lambda>b. btype b = ?t) (activeBuffs (player w)) = Some old"
      using old by simp
    then have "endTime old \<le> t0 + 10000"
      by (rule buffs_ok_find_bound [OF ok])
    then show "endTime old < adj + 10000" using lt by simp
  qed
  have other: "find (\<lambda>b. btype b = ?t) (activeBuffs (player w'))
                \<noteq> find (\<lambda>b. btype b = ?t) (activeBuffs (player w)) \<Longrightarrow>
              endTime old = adj + 10000"
    using powerUps_visits_touched [of ?t adj index 0 w] old by (simp add: w' [symmetric])
  show "endTime old \<le> adj + 10000"
    using same other by fastforce
  show "find (\<lambda>b. btype b = ?t) (activeBuffs (player w'))
           = find (\<lambda>b. btype b = ?t) (activeBuffs (player w)) \<longrightarrow>
         endTime old < adj + 10000"
    using same by blast
  show "find (\<lambda>b. btype b = ?t) (activeBuffs (player w'))
           \<noteq> find (\<lambda>b. btype b = ?t) (activeBuffs (player w)) \<longrightarrow>
         endTime old = adj + 10000"
    using other by blast
qed

text \<open>
  Claim C5, amended. Let the buffs be in order at the adjusted time \<open>t0\<close> of the tick
  before: no two of the same type, none expiring after \<open>t0 + 10000\<close>. A tick at an
  adjusted time \<open>adj\<close> that is no earlier leaves them in order at \<open>adj\<close>; they are in
  order when the loop over the power-ups begins and after any number of its visits:
  at most one buff of each type, at every point of a run, which starts without buffs.
  When the adjusted time has increased since the tick before, the visit of the loop
  that picks up a power-up of a type that is active overwrites the expiry of the buff
  of that type with \<open>adj + 10000\<close>, and leaves the types of the buffs (no second
  entry) and the buff of every other type as they are. This does not shorten the
  expiry. It extends the expiry strictly when the buff of that type is still the one
  from the beginning of the loop, whatever the visits before have done to the buffs of
  other types; when an earlier visit of the same loop has set or refreshed the buff
  of that type, the expiry is \<open>adj + 10000\<close> already and stays.
\<close>

theorem buff_refresh:
  "(buffs_ok t0 (player w) \<and> t0 \<le> adj \<longrightarrow> buffs_ok adj (player (tick adj f w))) \<and>
   (buffs_ok t0 (player w) \<longrightarrow>
      buffs_ok t0 (player (update_buffs adj
        (spawnBoss adj (spawnPowerUp adj (rnd_putype f) (rnd_pux f)
          (spawnEnemy adj (rnd_etype f) (rnd_ex f)
            (shoot adj (keys f) (w\<lparr>player := move_player (keys f) (player w)\<rparr>)))))))) \<and>
   (buffs_ok t0 (player w) \<and> t0 \<le> adj \<longrightarrow>
      buffs_ok adj (player (powerUps_visits adj n 0 w))) \<and>
   (buffs_ok t0 (player w) \<and> t0 < adj \<and>
    w' = powerUps_visits adj index 0 w \<and>
    overlaps (player w')
      ((powerUps w' ! index)\<lparr>y := y (powerUps w' ! index) + speed (powerUps w' ! index)\<rparr>) \<and>
    find (\<lambda>b. btype b = putype (powerUps w' ! index)) (activeBuffs (player w')) = Some old \<longrightarrow>
      find (\<lambda>b. btype b = putype (powerUps w' ! index))
        (activeBuffs (player (powerUp_callback adj index w')))
        = Some (old\<lparr>endTime := adj + 10000\<rparr>) \<and>
      map btype (activeBuffs (player (powerUp_callback adj index w')))
        = map btype (activeBuffs (player w')) \<and>
      (\<forall>t'. t' \<noteq> putype (powerUps w' ! index) \<longrightarrow>
         find (\<lambda>b. btype b = t') (activeBuffs (player (powerUp_callback adj index w')))
           = find (\<lambda>b. btype b = t') (activeBuffs (player w'))) \<and>
      endTime old \<le> adj + 10000 \<and>
      (find (\<lambda>b. btype b = putype (powerUps w' ! index)) (activeBuffs (player w'))
         = find (\<lambda>b. btype b = putype (powerUps w' ! index)) (activeBuffs (player w)) \<longrightarrow>
       endTime old < adj + 10000) \<and>
      (find (\<lambda>b. btype b = putype (powerUps w' ! index)) (activeBuffs (player w'))
         \<noteq> find (\<lambda>b. btype b = putype (powerUps w' ! index)) (activeBuffs (player w)) \<longrightarrow>
       endTime old = adj + 10000)) \<and>
   activeBuffs (player (resetGame now w)) = []"
proof -
  have 1: "buffs_ok t0 (player w) \<and> t0 \<le> adj \<longrightarrow> buffs_ok adj (player (tick adj f w))"
    using buffs_ok_tick by blast
  have 2: "buffs_ok t0 (player w) \<longrightarrow>
      buffs_ok t0 (player (update_buffs adj
        (spawnBoss adj (spawnPowerUp adj (rnd_putype f) (rnd_pux f)
          (spawnEnemy adj (rnd_etype f) (rnd_ex f)
            (shoot adj (keys f) (w\<lparr>player := move_player (keys f) (player w)\<rparr>)))))))"
    using buffs_ok_before_powerUps by blast
  have 3: "buffs_ok t0 (player w) \<and> t0 \<le> adj \<longrightarrow>
      buffs_ok adj (player (powerUps_visits adj n 0 w))"
    using buffs_ok_powerUps_visits buffs_ok_mono by blast
  have 4: "buffs_ok t0 (player w) \<and> t0 < adj \<and>
    w' = powerUps_visits adj index 0 w \<and>
    overlaps (player w')
      ((powerUps w' ! index)\<lparr>y := y (powerUps w' ! index) + speed (powerUps w' ! index)\<rparr>) \<and>
    find (\<lambda>b. btype b = putype (powerUps w' ! index)) (activeBuffs (player w')) = Some old \<longrightarrow>
      find (\<lambda>b. btype b = putype (powerUps w' ! index))
        (activeBuffs (player (powerUp_callback adj index w')))
        = Some (old\<lparr>endTime := adj + 10000\<rparr>) \<and>
      map btype (activeBuffs (player (powerUp_callback adj index w')))
        = map btype (activeBuffs (player w')) \<and>
      (\<forall>t'. t' \<noteq> putype (powerUps w' ! index) \<longrightarrow>
         find (\<lambda>b. btype b = t') (activeBuffs (player (powerUp_callback adj index w')))
           = find (\<lambda>b. btype b = t') (activeBuffs (player w'))) \<and>
      endTime old \<le> adj + 10000 \<and>
      (find (\<lambda>b. btype b = putype (powerUps w' ! index)) (activeBuffs (player w'))
         = find (\<lambda>b. btype b = putype (powerUps w' ! index)) (activeBuffs (player w)) \<longrightarrow>
       endTime old < adj + 10000) \<and>
      (find (\<lambda>b. btype b = putype (powerUps w' ! index)) (activeBuffs (player w'))
         \<noteq> find (\<lambda>b. btype b = putype (powerUps w' ! index)) (activeBuffs (player w)) \<longrightarrow>
       endTime old = adj + 10000)"
  proof (intro impI, elim conjE)
    assume a: "buffs_ok t0 (player w)" "t0 < adj" "w' = powerUps_visits adj index 0 w"
      "overlaps (player w')
        ((powerUps w' ! index)\<lparr>y := y (powerUps w' ! index) + speed (powerUps w' ! index)\<rparr>)"
      "find (\<lambda>b. btype b = putype (powerUps w' ! index)) (activeBuffs (player w')) = Some old"
    note r = pickup_refreshes_active_buff [OF a]
    from r(1) r(2) r(3) r(4) r(5) r(6)
    show "find (\<lambda>b. btype b = putype (powerUps w' ! index))
        (activeBuffs (player (powerUp_callback adj index w')))
        = Some (old\<lparr>endTime := adj + 10000\<rparr>) \<and>
      map btype (activeBuffs (player (powerUp_callback adj index w')))
        = map btype (activeBuffs (player w')) \<and>
      (\<forall>t'. t' \<noteq> putype (powerUps w' ! index) \<longrightarrow>
         find (\<lambda>b. btype b = t') (activeBuffs (player (powerUp_callback adj index w')))
           = find (\<lambda>b. btype b = t') (activeBuffs (player w'))) \<and>
      endTime old \<le> adj + 10000 \<and>
      (find (\<lambda>b. btype b = putype (powerUps w' ! index)) (activeBuffs (player w'))
         = find (\<lambda>b. btype b = putype (powerUps w' ! index)) (activeBuffs (player w)) \<longrightarrow>
       endTime old < adj + 10000) \<and>
      (find (\<lambda>b. btype b = putype (powerUps w' ! index)) (activeBuffs (player w'))
         \<noteq> find (\<lambda>b. btype b = putype (powerUps w' ! index)) (activeBuffs (player w)) \<longrightarrow>
       endTime old = adj + 10000)"
      by (intro conjI)
  qed
  show ?thesis
    using 1 2 3 4 resetGame_activeBuffs [of now w] by (intro conjI)
qed

lemma double_pickup_first:
  "powerUp_callback 1000 0 double_pickup_world = after_first_pickup"
  by (simp add: double_pickup_world_def after_first_pickup_def initial_world_def
        standard_player_def powerUp_callback_def overlaps_def apply_buff_def splice1_def
        CANVAS_HEIGHT_def Let_def)

lemma double_pickup_second:
  "powerUp_callback 1000 (Suc 0) after_first_pickup = after_second_pickup"
  by (simp add: after_first_pickup_def after_second_pickup_def initial_world_def
        standard_player_def powerUp_callback_def overlaps_def apply_buff_def splice1_def
        CANVAS_HEIGHT_def Let_def)

lemma double_pickup_loop:
  "powerUps_loop 1000 double_pickup_world = after_second_pickup"
proof -
  have l: "length (powerUps double_pickup_world) = Suc (Suc (Suc 0))"
    "length (powerUps after_first_pickup) = Suc (Suc 0)"
    "length (powerUps after_second_pickup) = Suc 0"
    by (simp_all add: double_pickup_world_def after_first_pickup_def after_second_pickup_def)
  show ?thesis
    by (simp add: powerUps_loop_def powerUps_visits_def l double_pickup_first
          double_pickup_second)
qed

text \<open>
  Claim C5 asks that the pickup of a power-up of an active type strictly extends the
  expiry. Two power-ups of the same type picked up in the same tick: the first pickup
  sets the expiry to \<open>adj + 10000\<close>, and the second, of a type that is active now,
  sets it to the same value.
\<close>

theorem double_pickup_counterexample:
  "putype (powerUps (powerUp_callback 1000 0 double_pickup_world) ! 1) = shield \<and>
   expiry shield (player (powerUp_callback 1000 0 double_pickup_world)) = Some 11000 \<and>
   length (powerUps (powerUp_callback 1000 1 (powerUp_callback 1000 0 double_pickup_world)))
     < length (powerUps (powerUp_callback 1000 0 double_pickup_world)) \<and>
   y (powerUps (powerUp_callback 1000 0 double_pickup_world) ! 1)
     + speed (powerUps (powerUp_callback 1000 0 double_pickup_world) ! 1) \<le> CANVAS_HEIGHT \<and>
   expiry shield (player (powerUp_callback 1000 1 (powerUp_callback 1000 0 double_pickup_world)))
     = Some 11000 \<and>
   powerUps_loop 1000 double_pickup_world
     = powerUp_callback 1000 1 (powerUp_callback 1000 0 double_pickup_world)"
  by (simp add: double_pickup_loop double_pickup_first double_pickup_second)
     (simp add: after_first_pickup_def after_second_pickup_def expiry_def CANVAS_HEIGHT_def)

lemma mixed_pickup_first:
  "powerUps_visits 1000 (Suc 0) 0 mixed_pickup_world = after_rapid_pickup"
  by (simp add: powerUps_visits_def mixed_pickup_world_def after_rapid_pickup_def
        initial_world_def standard_player_def powerUp_callback_def overlaps_def apply_buff_def
        splice1_def CANVAS_HEIGHT_def Let_def)

lemma double_pickup_visits:
  "powerUps_visits 1000 (Suc 0) 0 double_pickup_world = after_first_pickup"
proof -
  have "0 < length (powerUps double_pickup_world)"
    by (simp add: double_pickup_world_def)
  then show ?thesis
    by (simp add: powerUps_visits_def double_pickup_first)
qed

theorem buff_refresh_witness:
  "buffs_ok 0 (player mixed_pickup_world) \<and> (0 :: real) < 1000 \<and>
   after_rapid_pickup = powerUps_visits 1000 1 0 mixed_pickup_world \<and>
   putype (powerUps after_rapid_pickup ! 1) = shield \<and>
   overlaps (player after_rapid_pickup)
     ((powerUps after_rapid_pickup ! 1)
        \<lparr>y := y (powerUps after_rapid_pickup ! 1) + speed (powerUps after_rapid_pickup ! 1)\<rparr>) \<and>
   find (\<lambda>b. btype b = rapidFire) (activeBuffs (player mixed_pickup_world)) = None \<and>
   find (\<lambda>b. btype b = rapidFire) (activeBuffs (player after_rapid_pickup))
     = Some \<lparr>btype = rapidFire, endTime = 11000\<rparr> \<and>
   find (\<lambda>b. btype b = shield) (activeBuffs (player mixed_pickup_world))
     = Some \<lparr>btype = shield, endTime = 4000\<rparr> \<and>
   find (\<lambda>b. btype b = shield) (activeBuffs (player after_rapid_pickup))
     = Some \<lparr>btype = shield, endTime = 4000\<rparr> \<and>
   find (\<lambda>b. btype b = shield) (activeBuffs (player (powerUp_callback 1000 1 after_rapid_pickup)))
     = Some \<lparr>btype = shield, endTime = 11000\<rparr> \<and>
   find (\<lambda>b. btype b = rapidFire) (activeBuffs (player (powerUp_callback 1000 1 after_rapid_pickup)))
     = Some \<lparr>btype = rapidFire, endTime = 11000\<rparr> \<and>
   map btype (activeBuffs (player (powerUp_callback 1000 1 after_rapid_pickup)))
     = [shield, rapidFire] \<and>
   buffs_ok 1000 (player (powerUps_visits 1000 2 0 mixed_pickup_world)) \<and>
   buffs_ok 1000 (player (tick 1000 (frame_at 1000) mixed_pickup_world)) \<and>
   buffs_ok 0 (player double_pickup_world) \<and>
   after_first_pickup = powerUps_visits 1000 1 0 double_pickup_world \<and>
   putype (powerUps after_first_pickup ! 1) = shield \<and>
   overlaps (player after_first_pickup)
     ((powerUps after_first_pickup ! 1)
        \<lparr>y := y (powerUps after_first_pickup ! 1) + speed (powerUps after_first_pickup ! 1)\<rparr>) \<and>
   find (\<lambda>b. btype b = shield) (activeBuffs (player double_pickup_world)) = None \<and>
   find (\<lambda>b. btype b = shield) (activeBuffs (player after_first_pickup))
     = Some \<lparr>btype = shield, endTime = 11000\<rparr> \<and>
   find (\<lambda>b. btype b = shield) (activeBuffs (player (powerUp_callback 1000 1 after_first_pickup)))
     = Some \<lparr>btype = shield, endTime = 11000\<rparr>"
proof -
  have h: "buffs_ok 0 (player mixed_pickup_world)" "(0 :: real) < 1000"
    "find (\<lambda>b. btype b = rapidFire) (activeBuffs (player mixed_pickup_world)) = None"
    "find (\<lambda>b. btype b = shield) (activeBuffs (player mixed_pickup_world))
       = Some \<lparr>btype = shield, endTime = 4000\<rparr>"
    by (simp_all add: mixed_pickup_world_def buffs_ok_def)
  have a: "putype (powerUps after_rapid_pickup ! 1) = shield"
    "overlaps (player after_rapid_pickup)
       ((powerUps after_rapid_pickup ! 1)
          \<lparr>y := y (powerUps after_rapid_pickup ! 1) + speed (powerUps after_rapid_pickup ! 1)\<rparr>)"
    "find (\<lambda>b. btype b = rapidFire) (activeBuffs (player after_rapid_pickup))
       = Some \<lparr>btype = rapidFire, endTime = 11000\<rparr>"
    "find (\<lambda>b. btype b = shield) (activeBuffs (player after_rapid_pickup))
       = Some \<lparr>btype = shield, endTime = 4000\<rparr>"
    "map btype (activeBuffs (player after_rapid_pickup)) = [shield, rapidFire]"
    by (simp_all add: after_rapid_pickup_def standard_player_def overlaps_def)
  have d: "buffs_ok 0 (player double_pickup_world)"
    "find (\<lambda>b. btype b = shield) (activeBuffs (player double_pickup_world)) = None"
    "putype (powerUps after_first_pickup ! 1) = shield"
    "overlaps (player after_first_pickup)
       ((powerUps after_first_pickup ! 1)
          \<lparr>y := y (powerUps after_first_pickup ! 1) + speed (powerUps after_first_pickup ! 1)\<rparr>)"
    "find (\<lambda>b. btype b = shield) (activeBuffs (player after_first_pickup))
       = Some \<lparr>btype = shield, endTime = 11000\<rparr>"
    by (simp_all add: double_pickup_world_def initial_world_def after_first_pickup_def
          standard_player_def overlaps_def buffs_ok_def)
  show ?thesis
    using buff_refresh [where ?t0.0 = 0 and w = mixed_pickup_world and adj = 1000
        and f = "frame_at 1000" and n = 2 and w' = after_rapid_pickup and index = 1
        and old = "\<lparr>btype = shield, endTime = 4000\<rparr>" and now = 0]
      buff_refresh [where ?t0.0 = 0 and w = double_pickup_world and adj = 1000
        and f = "frame_at 1000" and n = 1 and w' = after_first_pickup and index = 1
        and old = "\<lparr>btype = shield, endTime = 11000\<rparr>" and now = 0]
      h a d mixed_pickup_first double_pickup_visits
    by simp
qed

end
